theory Spec2Isabelle
  imports Main "HOL-Library.Sublist" "HOL-Library.Word"
begin

unbundle bit_operations_syntax

section \<open>JavaScript strings\<close>

text \<open>
  A JavaScript string is a sequence of UTF-16 code units. The model uses \<^typ>\<open>string\<close>,
  whose characters are the code units 0 to 255 (ASCII and Latin-1); every function below
  treats one \<^typ>\<open>char\<close> as one code unit, as the source does.
\<close>

definition NL :: string where
  "NL = [CHR 0x0A]"

definition isAsciiAlnum :: "char \<Rightarrow> bool" where
  \<comment> \<open>the characters the class \<open>[a-z0-9]\<close> matches under the \<open>i\<close> flag: without the \<open>u\<close> flag a
     code unit above 127 is never folded onto an ASCII letter\<close>
  "isAsciiAlnum c =
     (let n = (of_char c :: nat)
      in (48 \<le> n \<and> n \<le> 57) \<or> (65 \<le> n \<and> n \<le> 90) \<or> (97 \<le> n \<and> n \<le> 122))"

definition toLowerChar :: "char \<Rightarrow> char" where
  \<comment> \<open>\<open>String.prototype.toLowerCase\<close> on one code unit below 256: the ASCII capitals and
     the Latin-1 capitals 0xC0 to 0xDE (0xD7, the multiplication sign, has no case)\<close>
  "toLowerChar c =
     (let n = (of_char c :: nat)
      in if (65 \<le> n \<and> n \<le> 90) \<or> (192 \<le> n \<and> n \<le> 222 \<and> n \<noteq> 215)
         then char_of (n + 32) else c)"

definition toLowerCase :: "string \<Rightarrow> string" where
  "toLowerCase s = map toLowerChar s"

definition isWhiteSpace :: "char \<Rightarrow> bool" where
  \<comment> \<open>the code units below 256 that \<open>String.prototype.trim\<close> strips: tab, line feed,
     vertical tab, form feed, carriage return, space and no-break space\<close>
  "isWhiteSpace c = ((of_char c :: nat) \<in> {9, 10, 11, 12, 13, 32, 160})"

definition trim :: "string \<Rightarrow> string" where
  "trim s = rev (dropWhile isWhiteSpace (rev (dropWhile isWhiteSpace s)))"

fun splitFrom :: "string \<Rightarrow> string \<Rightarrow> string \<Rightarrow> string list" where
  "splitFrom sep acc [] = [rev acc]"
| "splitFrom sep acc (c # cs) =
     (if prefix sep (c # cs)
      then rev acc # splitFrom sep [] (drop (length sep - 1) cs)
      else splitFrom sep (c # acc) cs)"

definition split :: "string \<Rightarrow> string \<Rightarrow> string list" where
  \<comment> \<open>\<open>s.split(sep)\<close> with a string separator: cut at each occurrence of \<open>sep\<close>, found
     from left to right and not overlapping; an empty separator cuts between code units\<close>
  "split sep s = (if sep = [] then map (\<lambda>c. [c]) s else splitFrom sep [] s)"

fun join :: "string \<Rightarrow> string list \<Rightarrow> string" where
  "join sep [] = []"
| "join sep [x] = x"
| "join sep (x # y # ys) = x @ sep @ join sep (y # ys)"

definition pop :: "'a list \<Rightarrow> 'a option" where
  \<comment> \<open>\<open>Array.prototype.pop\<close>: the last element, \<open>undefined\<close> on an empty array\<close>
  "pop xs = (if xs = [] then None else Some (last xs))"

definition replaceAll :: "char \<Rightarrow> string \<Rightarrow> string \<Rightarrow> string" where
  \<comment> \<open>\<open>s.replace(/c/g, rep)\<close> for a pattern of one literal character\<close>
  "replaceAll c rep s = concat (map (\<lambda>x. if x = c then rep else [x]) s)"

fun digitsOf :: "nat \<Rightarrow> string" where
  "digitsOf n =
     (if n < 10 then [char_of (48 + n)] else digitsOf (n div 10) @ [char_of (48 + n mod 10)])"

declare digitsOf.simps [simp del]

section \<open>Utility functions of the export packager\<close>

definition escapeXML :: "string \<Rightarrow> string" where
  "escapeXML text =
     replaceAll (CHR 0x27) ''&#39;''
       (replaceAll (CHR 0x22) ''&quot;''
         (replaceAll CHR ''>'' ''&gt;''
           (replaceAll CHR ''<'' ''&lt;''
             (replaceAll CHR ''&'' ''&amp;'' text))))"

definition formatChapterContent :: "string \<Rightarrow> string" where
  "formatChapterContent content =
     join NL (map (\<lambda>paragraph. ''<p>'' @ escapeXML (trim paragraph) @ ''</p>'')
                  (split (NL @ NL) content))"

definition sanitizeFilename :: "string \<Rightarrow> string" where
  "sanitizeFilename filename =
     toLowerCase (map (\<lambda>c. if isAsciiAlnum c then c else CHR ''_'') filename)"

section \<open>File type validation\<close>

definition allowedExtensions :: "string list" where
  "allowedExtensions =
     [''pdf'', ''docx'', ''odt'', ''rtf'', ''txt'', ''md'', ''markdown'', ''ods'', ''odp'']"

definition validateFileType :: "string \<Rightarrow> bool" where
  "validateFileType filename =
     (let extension = pop (split ''.'' (toLowerCase filename))
      in (case extension of None \<Rightarrow> [] | Some e \<Rightarrow> e) \<in> set allowedExtensions)"

section \<open>Content model\<close>

type_synonym timestamp = nat

record BookImage =
  image_name :: string
  image_url :: string

record BookChapter =
  entry_title :: string
  entry_content :: string
  entry_order :: int
  entry_wordCount :: int

text \<open>
  A column that may hold \<open>null\<close> (or, in an insert value, may be left out) is an
  \<^typ>\<open>'a option\<close>. Field names carry the name of their record, since a field name is global.
\<close>

record Book =
  book_id :: string
  book_title :: string
  book_author :: string
  book_genre :: string
  book_description :: "string option"
  book_keywords :: "string list option"
  book_content :: "BookChapter list option"
  book_coverUrl :: "string option"
  book_images :: "BookImage list option"
  book_sourceFile :: "string option"
  book_targetLength :: "string option"
  book_writingStyle :: "string option"
  book_progress :: "int option"
  book_status :: string
  book_createdAt :: "timestamp option"
  book_updatedAt :: "timestamp option"

record Chapter =
  chapter_id :: string
  chapter_bookId :: string
  chapter_title :: string
  chapter_content :: string
  chapter_order :: int
  chapter_wordCount :: "int option"
  chapter_status :: "string option"
  chapter_createdAt :: "timestamp option"
  chapter_updatedAt :: "timestamp option"

record InsertChapter =
  ins_bookId :: string
  ins_title :: string
  ins_content :: string
  ins_order :: int
  ins_wordCount :: "int option"
  ins_status :: "string option"

record Cover =
  cover_id :: string
  cover_bookId :: string
  cover_imageUrl :: string
  cover_style :: string
  cover_colorScheme :: string
  cover_isSelected :: string
  cover_createdAt :: "timestamp option"

record InsertCover =
  insc_bookId :: string
  insc_imageUrl :: string
  insc_style :: string
  insc_colorScheme :: string
  insc_isSelected :: "string option"

text \<open>
  The object that \<open>updateChapter\<close> and \<open>updateCover\<close> spread over the stored value is declared
  a partial insert value, but the declaration is not checked when the program runs:
  \<open>PATCH /api/chapters/:id\<close> passes the request body to \<open>updateChapter\<close> as it arrives. The
  spread copies every property the object has, so the object has a place for each property
  of a stored value, \<open>id\<close> and \<open>createdAt\<close> among them (\<open>updatedAt\<close> is set after the spread).
  \<open>None\<close> is a property that the object does not have. Properties of other names, and values
  of other types than the stored value has, are outside the model.
\<close>

record ChapterUpdate =
  upd_id :: "string option"
  upd_bookId :: "string option"
  upd_title :: "string option"
  upd_content :: "string option"
  upd_order :: "int option"
  upd_wordCount :: "int option option"
  upd_status :: "string option"
  upd_createdAt :: "timestamp option option"

record CoverUpdate =
  updc_id :: "string option"
  updc_bookId :: "string option"
  updc_imageUrl :: "string option"
  updc_style :: "string option"
  updc_colorScheme :: "string option"
  updc_isSelected :: "string option"
  updc_createdAt :: "timestamp option option"

record User =
  user_id :: string
  user_username :: string
  user_password :: string
  user_email :: "string option"
  user_apiKey :: "string option"

section \<open>The in-memory repository\<close>

text \<open>
  A JavaScript \<open>Map\<close> keeps its entries in insertion order and holds each key once: it is an
  association list whose keys are distinct. \<open>set\<close> on a key that is present replaces the value
  in place, \<open>delete\<close> reports whether the key was present.
\<close>

type_synonym 'v jsmap = "(string \<times> 'v) list"

definition Map_has :: "'v jsmap \<Rightarrow> string \<Rightarrow> bool" where
  "Map_has m k = (k \<in> set (map fst m))"

definition Map_get :: "'v jsmap \<Rightarrow> string \<Rightarrow> 'v option" where
  "Map_get m k = map_of m k"

definition Map_values :: "'v jsmap \<Rightarrow> 'v list" where
  "Map_values m = map snd m"

definition Map_set :: "string \<Rightarrow> 'v \<Rightarrow> 'v jsmap \<Rightarrow> 'v jsmap" where
  "Map_set k v m =
     (if Map_has m k then map (\<lambda>(k', v'). if k' = k then (k', v) else (k', v')) m
      else m @ [(k, v)])"

definition Map_delete :: "string \<Rightarrow> 'v jsmap \<Rightarrow> 'v jsmap" where
  "Map_delete k m = filter (\<lambda>(k', v'). k' \<noteq> k) m"

record MemStorage =
  books :: "Book jsmap"
  chapters :: "Chapter jsmap"
  covers :: "Cover jsmap"
  users :: "User jsmap"

definition emptyStorage :: MemStorage where
  \<comment> \<open>the constructor\<close>
  "emptyStorage = \<lparr>books = [], chapters = [], covers = [], users = []\<rparr>"

definition getBook :: "MemStorage \<Rightarrow> string \<Rightarrow> Book option" where
  "getBook s ident = Map_get (books s) ident"

definition deleteBook :: "MemStorage \<Rightarrow> string \<Rightarrow> bool \<times> MemStorage" where
  "deleteBook s ident =
     (let chaptersToDelete = filter (\<lambda>chapter. chapter_bookId chapter = ident)
                                    (Map_values (chapters s));
          chapters' = foldl (\<lambda>m chapter. Map_delete (chapter_id chapter) m)
                            (chapters s) chaptersToDelete;
          coversToDelete = filter (\<lambda>cover. cover_bookId cover = ident) (Map_values (covers s));
          covers' = foldl (\<lambda>m cover. Map_delete (cover_id cover) m) (covers s) coversToDelete
      in (Map_has (books s) ident,
          s\<lparr>chapters := chapters', covers := covers', books := Map_delete ident (books s)\<rparr>))"

definition getChaptersByBookId :: "MemStorage \<Rightarrow> string \<Rightarrow> Chapter list" where
  \<comment> \<open>\<open>Array.prototype.sort\<close> is stable, as \<open>sort_key\<close> is\<close>
  "getChaptersByBookId s bookId =
     sort_key chapter_order
       (filter (\<lambda>chapter. chapter_bookId chapter = bookId) (Map_values (chapters s)))"

definition createChapter ::
  "MemStorage \<Rightarrow> InsertChapter \<Rightarrow> string \<Rightarrow> timestamp \<Rightarrow> Chapter \<times> MemStorage" where
  \<comment> \<open>\<open>ident\<close> is the value \<open>randomUUID()\<close> returns, \<open>now\<close> the value of \<open>new Date()\<close>\<close>
  "createChapter s insertChapter ident now =
     (let chapter = \<lparr>chapter_id = ident,
                      chapter_bookId = ins_bookId insertChapter,
                      chapter_title = ins_title insertChapter,
                      chapter_content = ins_content insertChapter,
                      chapter_order = ins_order insertChapter,
                      chapter_wordCount = ins_wordCount insertChapter,
                      chapter_status = ins_status insertChapter,
                      chapter_createdAt = Some now,
                      chapter_updatedAt = Some now\<rparr>
      in (chapter, s\<lparr>chapters := Map_set ident chapter (chapters s)\<rparr>))"

definition deleteChapter :: "MemStorage \<Rightarrow> string \<Rightarrow> bool \<times> MemStorage" where
  "deleteChapter s ident =
     (Map_has (chapters s) ident, s\<lparr>chapters := Map_delete ident (chapters s)\<rparr>)"

definition createCover ::
  "MemStorage \<Rightarrow> InsertCover \<Rightarrow> string \<Rightarrow> timestamp \<Rightarrow> Cover \<times> MemStorage" where
  "createCover s insertCover ident now =
     (let cover = \<lparr>cover_id = ident,
                    cover_bookId = insc_bookId insertCover,
                    cover_imageUrl = insc_imageUrl insertCover,
                    cover_style = insc_style insertCover,
                    cover_colorScheme = insc_colorScheme insertCover,
                    cover_isSelected =
                      (case insc_isSelected insertCover of
                         None \<Rightarrow> ''false''
                       | Some v \<Rightarrow> if v = [] then ''false'' else v),
                    cover_createdAt = Some now\<rparr>
      in (cover, s\<lparr>covers := Map_set ident cover (covers s)\<rparr>))"

definition deleteCover :: "MemStorage \<Rightarrow> string \<Rightarrow> bool \<times> MemStorage" where
  "deleteCover s ident =
     (Map_has (covers s) ident, s\<lparr>covers := Map_delete ident (covers s)\<rparr>)"

definition orKeep :: "'a option \<Rightarrow> 'a \<Rightarrow> 'a" where
  \<comment> \<open>a property spread over an existing one: the new value when it is given\<close>
  "orKeep new old = (case new of None \<Rightarrow> old | Some v \<Rightarrow> v)"

definition updateChapter ::
  "MemStorage \<Rightarrow> string \<Rightarrow> ChapterUpdate \<Rightarrow> timestamp \<Rightarrow> Chapter option \<times> MemStorage" where
  \<comment> \<open>\<open>{ ...existing, ...updateChapter, updatedAt: new Date() }\<close>, stored under \<open>ident\<close>\<close>
  "updateChapter s ident upd now =
     (case Map_get (chapters s) ident of
        None \<Rightarrow> (None, s)
      | Some existing \<Rightarrow>
          (let updated = existing
                 \<lparr>chapter_id := orKeep (upd_id upd) (chapter_id existing),
                  chapter_bookId := orKeep (upd_bookId upd) (chapter_bookId existing),
                  chapter_title := orKeep (upd_title upd) (chapter_title existing),
                  chapter_content := orKeep (upd_content upd) (chapter_content existing),
                  chapter_order := orKeep (upd_order upd) (chapter_order existing),
                  chapter_wordCount := orKeep (upd_wordCount upd) (chapter_wordCount existing),
                  chapter_status := orKeep (map_option Some (upd_status upd)) (chapter_status existing),
                  chapter_createdAt := orKeep (upd_createdAt upd) (chapter_createdAt existing),
                  chapter_updatedAt := Some now\<rparr>
           in (Some updated, s\<lparr>chapters := Map_set ident updated (chapters s)\<rparr>)))"

definition updateCover ::
  "MemStorage \<Rightarrow> string \<Rightarrow> CoverUpdate \<Rightarrow> Cover option \<times> MemStorage" where
  \<comment> \<open>\<open>{ ...existing, ...updateCover }\<close>, stored under \<open>ident\<close>\<close>
  "updateCover s ident upd =
     (case Map_get (covers s) ident of
        None \<Rightarrow> (None, s)
      | Some existing \<Rightarrow>
          (let updated = existing
                 \<lparr>cover_id := orKeep (updc_id upd) (cover_id existing),
                  cover_bookId := orKeep (updc_bookId upd) (cover_bookId existing),
                  cover_imageUrl := orKeep (updc_imageUrl upd) (cover_imageUrl existing),
                  cover_style := orKeep (updc_style upd) (cover_style existing),
                  cover_colorScheme := orKeep (updc_colorScheme upd) (cover_colorScheme existing),
                  cover_isSelected := orKeep (updc_isSelected upd) (cover_isSelected existing),
                  cover_createdAt := orKeep (updc_createdAt upd) (cover_createdAt existing)\<rparr>
           in (Some updated, s\<lparr>covers := Map_set ident updated (covers s)\<rparr>)))"

definition keyed :: "('v \<Rightarrow> string) \<Rightarrow> 'v jsmap \<Rightarrow> bool" where
  \<comment> \<open>the keys are distinct, and every value is stored under its own id\<close>
  "keyed ident m = (distinct (map fst m) \<and> list_all (\<lambda>(k, v). ident v = k) m)"

definition storageInv :: "MemStorage \<Rightarrow> bool" where
  \<comment> \<open>what the constructor establishes. Creating and deleting keep it; an update keeps it
     unless its object has an \<open>id\<close>\<close>
  "storageInv s =
     (distinct (map fst (books s)) \<and> keyed chapter_id (chapters s) \<and> keyed cover_id (covers s))"

section \<open>Export options and random identifiers\<close>

datatype export_format = Kindle | Epub | Pdf | Docx | PrintReady | OtherFormat string
  \<comment> \<open>\<open>OtherFormat\<close>: a value outside the declared union, which the \<open>default\<close> branch of
     \<open>exportBook\<close> handles\<close>

text \<open>
  Of the export options only \<open>format\<close> and \<open>includeImages\<close> are read by the functions
  modelled here. The typographic options (\<open>paperSize\<close>, \<open>margins\<close>, \<open>fontSize\<close>, \<open>fontFamily\<close>,
  \<open>lineSpacing\<close>) are the extension \<open>'z\<close> of the record: they are floating-point numbers and
  strings that only the style sheets and the print documents read.
\<close>

record ExportOptions =
  format :: export_format
  includeImages :: bool

text \<open>
  \<open>Math.random() * 16 | 0\<close> is a number from 0 to 15. The source of randomness is the
  sequence of these numbers that the successive calls return.
\<close>

type_synonym rng = "nat \<Rightarrow> 4 word"

definition nextRandom16 :: "rng \<Rightarrow> 4 word \<times> rng" where
  "nextRandom16 r = (r 0, \<lambda>i. r (Suc i))"

definition hexDigit :: "4 word \<Rightarrow> char" where
  \<comment> \<open>\<open>v.toString(16)\<close> for \<open>v\<close> from 0 to 15\<close>
  "hexDigit v = ''0123456789abcdef'' ! unat v"

fun uuidFill :: "string \<Rightarrow> rng \<Rightarrow> string \<times> rng" where
  "uuidFill [] r = ([], r)"
| "uuidFill (c # cs) r =
     (if c = CHR ''x'' \<or> c = CHR ''y''
      then (let (r16, r') = nextRandom16 r;
                v = (if c = CHR ''x'' then r16 else (r16 AND 3) OR 8);
                (rest, r'') = uuidFill cs r'
            in (hexDigit v # rest, r''))
      else (let (rest, r') = uuidFill cs r in (c # rest, r')))"

definition generateUUID :: "rng \<Rightarrow> string \<times> rng" where
  "generateUUID r = uuidFill ''xxxxxxxx-xxxx-4xxx-yxxx-xxxxxxxxxxxx'' r"

section \<open>The EPUB documents\<close>

text \<open>
  Each template literal of the source is the concatenation of its text and of the values of its
  \<open>${...}\<close> holes, in order; a line break of the literal is the character \<open>\<newline>\<close>.
\<close>

definition chaptersOf :: "Book \<Rightarrow> BookChapter list" where
  \<comment> \<open>\<open>Array.isArray(book.content) ? book.content : []\<close>\<close>
  "chaptersOf book = (case book_content book of None \<Rightarrow> [] | Some entries \<Rightarrow> entries)"

definition truthy :: "string option \<Rightarrow> bool" where
  \<comment> \<open>a nullable string used as a condition: neither \<open>null\<close> nor empty\<close>
  "truthy x = (case x of None \<Rightarrow> False | Some v \<Rightarrow> v \<noteq> [])"

definition orEmpty :: "string option \<Rightarrow> string" where
  \<comment> \<open>\<open>x || ''\<close>\<close>
  "orEmpty x = (case x of None \<Rightarrow> [] | Some v \<Rightarrow> v)"

definition createContainerXML :: string where
  \<open>createContainerXML =
          ''<?xml version="1.0" encoding="UTF-8"?>\<newline>'' @
          ''<container version="1.0" xmlns="urn:oasis:names:tc:opendocument:xmlns:container">\<newline>'' @
          ''  <rootfiles>\<newline>'' @
          ''    <rootfile full-path="OEBPS/content.opf" media-type="application/oebps-package+xml"/>\<newline>'' @
          ''  </rootfiles>\<newline>'' @
          ''</container>''\<close>

definition manifestItem :: "nat \<Rightarrow> string" where
  \<open>manifestItem index =
        ''<item id="chapter'' @ digitsOf (index + 1) @ ''" href="chapter'' @ digitsOf (index + 1) @
        ''.xhtml" media-type="application/xhtml+xml"/>''\<close>

definition spineItemref :: "nat \<Rightarrow> string" where
  \<open>spineItemref index =
        ''<itemref idref="chapter'' @ digitsOf (index + 1) @ ''"/>''\<close>

definition createContentOPF ::
  "Book \<Rightarrow> 'z ExportOptions_scheme \<Rightarrow> rng \<Rightarrow> string \<times> rng" where
  \<open>createContentOPF book options r =
     (let entries = chaptersOf book;
          (uuid, r') = generateUUID r
      in (''<?xml version="1.0" encoding="UTF-8"?>\<newline>'' @
          ''<package xmlns="http://www.idpf.org/2007/opf" unique-identifier="bookid" version="2.0">\<newline>'' @
          ''  <metadata xmlns:dc="http://purl.org/dc/elements/1.1/" xmlns:opf="http://www.idpf.org/2007/opf">\<newline>'' @
          ''    <dc:title>'' @ escapeXML (book_title book) @ ''</dc:title>\<newline>'' @
          ''    <dc:creator opf:role="aut">'' @ escapeXML (book_author book) @ ''</dc:creator>\<newline>'' @
          ''    <dc:subject>'' @ escapeXML (book_genre book) @ ''</dc:subject>\<newline>'' @
          ''    <dc:description>'' @ escapeXML (orEmpty (book_description book)) @ ''</dc:description>\<newline>'' @
          ''    <dc:language>en</dc:language>\<newline>'' @
          ''    <dc:identifier id="bookid">'' @ uuid @ ''</dc:identifier>\<newline>'' @
          ''    <meta name="cover" content="cover-img"/>\<newline>'' @
          ''  </metadata>\<newline>'' @
          ''  \<newline>'' @
          ''  <manifest>\<newline>'' @
          ''    <item id="ncx" href="toc.ncx" media-type="application/x-dtbncx+xml"/>\<newline>'' @
          ''    <item id="stylesheet" href="stylesheet.css" media-type="text/css"/>\<newline>'' @
          ''    <item id="title" href="title.xhtml" media-type="application/xhtml+xml"/>\<newline>'' @
          ''    <item id="toc" href="toc.xhtml" media-type="application/xhtml+xml"/>\<newline>'' @
          ''    '' @ join ''\<newline>    '' (map manifestItem [0..<length entries]) @
          ''\<newline>'' @
          ''    '' @ (if includeImages options \<and> truthy (book_coverUrl book)
           then ''<item id="cover-img" href="cover.jpg" media-type="image/jpeg"/>'' else []) @
          ''\<newline>'' @
          ''  </manifest>\<newline>'' @
          ''  \<newline>'' @
          ''  <spine toc="ncx">\<newline>'' @
          ''    <itemref idref="title"/>\<newline>'' @
          ''    <itemref idref="toc"/>\<newline>'' @
          ''    '' @ join ''\<newline>    '' (map spineItemref [0..<length entries]) @
          ''\<newline>'' @
          ''  </spine>\<newline>'' @
          ''  \<newline>'' @
          ''  '' @ (if includeImages options \<and> truthy (book_coverUrl book)
           then ''<guide><reference type="cover" title="Cover" href="title.xhtml"/></guide>''
           else []) @
          ''\<newline>'' @
          ''</package>'',
          r'))\<close>

definition navPoint :: "nat \<times> BookChapter \<Rightarrow> string" where
  \<open>navPoint = (\<lambda>(index, chapter).
        ''\<newline>'' @
        ''    <navPoint id="navpoint-'' @ digitsOf (index + 3) @ ''" playOrder="'' @
        digitsOf (index + 3) @ ''">\<newline>'' @
        ''      <navLabel><text>'' @ escapeXML (entry_title chapter) @ ''</text></navLabel>\<newline>'' @
        ''      <content src="chapter'' @ digitsOf (index + 1) @ ''.xhtml"/>\<newline>'' @
        ''    </navPoint>'')\<close>

definition createTOCNCX :: "Book \<Rightarrow> rng \<Rightarrow> string \<times> rng" where
  \<open>createTOCNCX book r =
     (let entries = chaptersOf book;
          (uuid, r') = generateUUID r
      in (''<?xml version="1.0" encoding="UTF-8"?>\<newline>'' @
          ''<ncx xmlns="http://www.daisy.org/z3986/2005/ncx/" version="2005-1">\<newline>'' @
          ''  <head>\<newline>'' @
          ''    <meta name="dtb:uid" content="'' @ uuid @ ''"/>\<newline>'' @
          ''    <meta name="dtb:depth" content="1"/>\<newline>'' @
          ''    <meta name="dtb:totalPageCount" content="0"/>\<newline>'' @
          ''    <meta name="dtb:maxPageNumber" content="0"/>\<newline>'' @
          ''  </head>\<newline>'' @
          ''  \<newline>'' @
          ''  <docTitle>\<newline>'' @
          ''    <text>'' @ escapeXML (book_title book) @ ''</text>\<newline>'' @
          ''  </docTitle>\<newline>'' @
          ''  \<newline>'' @
          ''  <navMap>\<newline>'' @
          ''    <navPoint id="navpoint-1" playOrder="1">\<newline>'' @
          ''      <navLabel><text>Title Page</text></navLabel>\<newline>'' @
          ''      <content src="title.xhtml"/>\<newline>'' @
          ''    </navPoint>\<newline>'' @
          ''    <navPoint id="navpoint-2" playOrder="2">\<newline>'' @
          ''      <navLabel><text>Table of Contents</text></navLabel>\<newline>'' @
          ''      <content src="toc.xhtml"/>\<newline>'' @
          ''    </navPoint>\<newline>'' @
          ''    '' @ join [] (map navPoint (enumerate 0 entries)) @ ''\<newline>'' @
          ''  </navMap>\<newline>'' @
          ''</ncx>'',
          r'))\<close>

definition createTitlePage :: "Book \<Rightarrow> string" where
  \<open>createTitlePage book =
          ''<?xml version="1.0" encoding="UTF-8"?>\<newline>'' @
          ''<html xmlns="http://www.w3.org/1999/xhtml">\<newline>'' @
          ''<head>\<newline>'' @
          ''  <title>'' @ escapeXML (book_title book) @ ''</title>\<newline>'' @
          ''  <link rel="stylesheet" type="text/css" href="stylesheet.css"/>\<newline>'' @
          ''</head>\<newline>'' @
          ''<body>\<newline>'' @
          ''  <div class="title-page">\<newline>'' @
          ''    <h1>'' @ escapeXML (book_title book) @ ''</h1>\<newline>'' @
          ''    <h2>by '' @ escapeXML (book_author book) @ ''</h2>\<newline>'' @
          ''    '' @ (case book_description book of
                      Some description \<Rightarrow>
                        if description \<noteq> [] then ''<p>'' @ escapeXML description @ ''</p>'' else []
                    | None \<Rightarrow> []) @
          ''\<newline>'' @
          ''  </div>\<newline>'' @
          ''</body>\<newline>'' @
          ''</html>''\<close>

definition tocEntry :: "nat \<times> BookChapter \<Rightarrow> string" where
  \<open>tocEntry = (\<lambda>(index, chapter).
        ''<li><a href="chapter'' @ digitsOf (index + 1) @ ''.xhtml">'' @ escapeXML (entry_title chapter) @
        ''</a></li>'')\<close>

definition createTOCPage :: "Book \<Rightarrow> string" where
  \<open>createTOCPage book =
     (let entries = chaptersOf book
      in  ''<?xml version="1.0" encoding="UTF-8"?>\<newline>'' @
          ''<html xmlns="http://www.w3.org/1999/xhtml">\<newline>'' @
          ''<head>\<newline>'' @
          ''  <title>Table of Contents</title>\<newline>'' @
          ''  <link rel="stylesheet" type="text/css" href="stylesheet.css"/>\<newline>'' @
          ''</head>\<newline>'' @
          ''<body>\<newline>'' @
          ''  <h1>Table of Contents</h1>\<newline>'' @
          ''  <ul>\<newline>'' @
          ''    '' @ join ''\<newline>    '' (map tocEntry (enumerate 0 entries)) @
          ''\<newline>'' @
          ''  </ul>\<newline>'' @
          ''</body>\<newline>'' @
          ''</html>'')\<close>

definition createChapterXHTML :: "BookChapter \<Rightarrow> 'z ExportOptions_scheme \<Rightarrow> string" where
  \<open>createChapterXHTML chapter options =
          ''<?xml version="1.0" encoding="UTF-8"?>\<newline>'' @
          ''<html xmlns="http://www.w3.org/1999/xhtml">\<newline>'' @
          ''<head>\<newline>'' @
          ''  <title>'' @ escapeXML (entry_title chapter) @ ''</title>\<newline>'' @
          ''  <link rel="stylesheet" type="text/css" href="stylesheet.css"/>\<newline>'' @
          ''</head>\<newline>'' @
          ''<body>\<newline>'' @
          ''  <h1 class="chapter-title">'' @ escapeXML (entry_title chapter) @ ''</h1>\<newline>'' @
          ''  <div class="chapter-content">\<newline>'' @
          ''    '' @ formatChapterContent (entry_content chapter) @ ''\<newline>'' @
          ''  </div>\<newline>'' @
          ''</body>\<newline>'' @
          ''</html>''\<close>

section \<open>The host environment\<close>

text \<open>
  What the browser and the libraries do is given by a \<open>host\<close>: for each call the packager
  makes, whether it throws and what it returns. A thrown value is an \<open>Error\<close> with its message
  or some other value. The run of an export returns its result, \<open>Inl\<close> for a rejected promise,
  together with the calls it made, each with the value it threw, if any.
\<close>

datatype thrown = JsError string | NonError

datatype blob = Blob string string
  \<comment> \<open>content and media type\<close>

datatype zipEntry = Folder | TextFile string | BlobFile blob

type_synonym archive = "zipEntry jsmap"

datatype call =
    Fetch string
  | ConsoleWarn
  | GenerateAsync archive
  | SaveAs blob string
  | WindowOpen
  | DocumentWrite string
  | DocumentClose

type_synonym event = "call \<times> thrown option"

type_synonym 'a run = "(thrown + 'a) \<times> event list"

record host =
  fetchBlob :: "string \<Rightarrow> thrown + blob"
    \<comment> \<open>\<open>await fetch(url)\<close> followed by \<open>await response.blob()\<close>\<close>
  generateAsync :: "archive \<Rightarrow> thrown + blob"
  saveAs :: "blob \<Rightarrow> string \<Rightarrow> thrown option"
  windowOpen :: "thrown + bool"
    \<comment> \<open>\<open>Inr True\<close>: a window; \<open>Inr False\<close>: \<open>null\<close>, the window was blocked\<close>
  documentWrite :: "string \<Rightarrow> thrown option"
  documentClose :: "thrown option"
  mathRandom :: rng

text \<open>
  The style sheets and the print and Word documents print floating-point options; their text
  is a parameter of the model.
\<close>

record 'z renderers =
  createKindleCSS :: "'z ExportOptions_scheme \<Rightarrow> string"
  createEPUBCSS :: "'z ExportOptions_scheme \<Rightarrow> string"
  createPDFHTML :: "Book \<Rightarrow> 'z ExportOptions_scheme \<Rightarrow> string"
  createWordHTML :: "Book \<Rightarrow> 'z ExportOptions_scheme \<Rightarrow> string"
  createPrintReadyHTML :: "Book \<Rightarrow> 'z ExportOptions_scheme \<Rightarrow> string"

definition andThen :: "'a run \<Rightarrow> ('a \<Rightarrow> 'b run) \<Rightarrow> 'b run" where
  \<comment> \<open>one statement after another: a throw ends the run\<close>
  "andThen x f =
     (case x of
        (Inl t, tr) \<Rightarrow> (Inl t, tr)
      | (Inr a, tr) \<Rightarrow> (case f a of (res, tr') \<Rightarrow> (res, tr @ tr')))"

definition doGenerateAsync :: "host \<Rightarrow> archive \<Rightarrow> blob run" where
  "doGenerateAsync h jszip =
     (case generateAsync h jszip of
        Inl t \<Rightarrow> (Inl t, [(GenerateAsync jszip, Some t)])
      | Inr content \<Rightarrow> (Inr content, [(GenerateAsync jszip, None)]))"

definition doSaveAs :: "host \<Rightarrow> blob \<Rightarrow> string \<Rightarrow> unit run" where
  "doSaveAs h content name =
     (case saveAs h content name of
        Some t \<Rightarrow> (Inl t, [(SaveAs content name, Some t)])
      | None \<Rightarrow> (Inr (), [(SaveAs content name, None)]))"

definition doWindowOpen :: "host \<Rightarrow> bool run" where
  "doWindowOpen h =
     (case windowOpen h of
        Inl t \<Rightarrow> (Inl t, [(WindowOpen, Some t)])
      | Inr printWindow \<Rightarrow> (Inr printWindow, [(WindowOpen, None)]))"

definition doDocumentWrite :: "host \<Rightarrow> string \<Rightarrow> unit run" where
  "doDocumentWrite h htmlContent =
     (case documentWrite h htmlContent of
        Some t \<Rightarrow> (Inl t, [(DocumentWrite htmlContent, Some t)])
      | None \<Rightarrow> (Inr (), [(DocumentWrite htmlContent, None)]))"

definition doDocumentClose :: "host \<Rightarrow> unit run" where
  "doDocumentClose h =
     (case documentClose h of
        Some t \<Rightarrow> (Inl t, [(DocumentClose, Some t)])
      | None \<Rightarrow> (Inr (), [(DocumentClose, None)]))"

section \<open>The export packager\<close>

definition zipFile :: "string \<Rightarrow> zipEntry \<Rightarrow> archive \<Rightarrow> archive" where
  \<comment> \<open>\<open>zip.file(name, data)\<close>\<close>
  "zipFile name data jszip = Map_set name data jszip"

definition zipFolder :: "string \<Rightarrow> archive \<Rightarrow> archive" where
  \<comment> \<open>\<open>zip.folder(name)\<close>: the folder entry is created unless it exists\<close>
  "zipFolder name jszip = (if Map_has jszip (name @ ''/'') then jszip else jszip @ [(name @ ''/'', Folder)])"

definition addChapters :: "BookChapter list \<Rightarrow> 'z ExportOptions_scheme \<Rightarrow> archive \<Rightarrow> archive" where
  \<comment> \<open>\<open>book.content.forEach((chapter, index) => oebps.file(`chapter${index + 1}.xhtml`, ...))\<close>\<close>
  "addChapters entries options jszip =
     foldl (\<lambda>z (index, chapter).
              zipFile (''OEBPS/chapter'' @ digitsOf (index + 1) @ ''.xhtml'')
                      (TextFile (createChapterXHTML chapter options)) z)
           jszip (enumerate 0 entries)"

definition addCover :: "host \<Rightarrow> Book \<Rightarrow> 'z ExportOptions_scheme \<Rightarrow> archive \<Rightarrow> archive \<times> event list" where
  \<comment> \<open>the cover image: a throw of the fetch is caught, logged, and the export goes on\<close>
  "addCover h book options jszip =
     (case book_coverUrl book of
        None \<Rightarrow> (jszip, [])
      | Some coverUrl \<Rightarrow>
          if coverUrl \<noteq> [] \<and> includeImages options
          then (case fetchBlob h coverUrl of
                  Inr coverBlob \<Rightarrow>
                    (zipFile ''OEBPS/cover.jpg'' (BlobFile coverBlob) jszip, [(Fetch coverUrl, None)])
                | Inl e \<Rightarrow> (jszip, [(Fetch coverUrl, Some e), (ConsoleWarn, None)]))
          else (jszip, []))"

definition epubArchive ::
  "string \<Rightarrow> host \<Rightarrow> Book \<Rightarrow> 'z ExportOptions_scheme \<Rightarrow> archive \<times> event list" where
  \<comment> \<open>the archive that \<open>exportToKindle\<close> and \<open>exportToEPUB\<close> build, in the same way up to the
     style sheet, before they serialise it\<close>
  "epubArchive stylesheet h book options =
     (let zip0 = zipFile ''mimetype'' (TextFile ''application/epub+zip'') [];
          zip1 = zipFile ''META-INF/container.xml'' (TextFile createContainerXML)
                   (zipFolder ''META-INF'' zip0);
          (opf, r1) = createContentOPF book options (mathRandom h);
          (ncx, r2) = createTOCNCX book r1;
          zip2 = zipFile ''OEBPS/content.opf'' (TextFile opf) (zipFolder ''OEBPS'' zip1);
          zip3 = zipFile ''OEBPS/toc.ncx'' (TextFile ncx) zip2;
          zip4 = zipFile ''OEBPS/stylesheet.css'' (TextFile stylesheet) zip3;
          zip5 = zipFile ''OEBPS/title.xhtml'' (TextFile (createTitlePage book)) zip4;
          zip6 = zipFile ''OEBPS/toc.xhtml'' (TextFile (createTOCPage book)) zip5;
          zip7 = addChapters (chaptersOf book) options zip6
      in addCover h book options zip7)"

definition exportToKindle :: "'z renderers \<Rightarrow> host \<Rightarrow> Book \<Rightarrow> 'z ExportOptions_scheme \<Rightarrow> unit run" where
  "exportToKindle rd h book options =
     (case epubArchive (createKindleCSS rd options) h book options of
        (jszip, tr) \<Rightarrow>
          andThen (Inr (), tr) (\<lambda>_.
          andThen (doGenerateAsync h jszip) (\<lambda>content.
            doSaveAs h content (sanitizeFilename (book_title book) @ ''_kindle.epub''))))"

definition exportToEPUB :: "'z renderers \<Rightarrow> host \<Rightarrow> Book \<Rightarrow> 'z ExportOptions_scheme \<Rightarrow> unit run" where
  "exportToEPUB rd h book options =
     (case epubArchive (createEPUBCSS rd options) h book options of
        (jszip, tr) \<Rightarrow>
          andThen (Inr (), tr) (\<lambda>_.
          andThen (doGenerateAsync h jszip) (\<lambda>content.
            doSaveAs h content (sanitizeFilename (book_title book) @ ''.epub''))))"

definition exportToPDF :: "'z renderers \<Rightarrow> host \<Rightarrow> Book \<Rightarrow> 'z ExportOptions_scheme \<Rightarrow> unit run" where
  \<comment> \<open>the \<open>onload\<close> handler that prints and closes the window runs after the promise has
     resolved; it is not part of the run\<close>
  "exportToPDF rd h book options =
     (let htmlContent = createPDFHTML rd book options
      in andThen (doWindowOpen h) (\<lambda>printWindow.
           if printWindow
           then andThen (doDocumentWrite h htmlContent) (\<lambda>_. doDocumentClose h)
           else doSaveAs h (Blob htmlContent ''text/html'')
                  (sanitizeFilename (book_title book) @ ''_print.html'')))"

definition exportToDocx :: "'z renderers \<Rightarrow> host \<Rightarrow> Book \<Rightarrow> 'z ExportOptions_scheme \<Rightarrow> unit run" where
  "exportToDocx rd h book options =
     (let htmlContent = createWordHTML rd book options
      in doSaveAs h
           (Blob htmlContent
              ''application/vnd.openxmlformats-officedocument.wordprocessingml.document'')
           (sanitizeFilename (book_title book) @ ''.docx''))"

definition exportPrintReady :: "'z renderers \<Rightarrow> host \<Rightarrow> Book \<Rightarrow> 'z ExportOptions_scheme \<Rightarrow> unit run" where
  "exportPrintReady rd h book options =
     (let htmlContent = createPrintReadyHTML rd book options
      in andThen (doWindowOpen h) (\<lambda>printWindow.
           if printWindow
           then andThen (doDocumentWrite h htmlContent) (\<lambda>_. doDocumentClose h)
           else (Inr (), [])))"

definition errorMessage :: "thrown \<Rightarrow> string" where
  \<comment> \<open>\<open>error instanceof Error ? error.message : 'Unknown error'\<close>\<close>
  "errorMessage e = (case e of JsError m \<Rightarrow> m | NonError \<Rightarrow> ''Unknown error'')"

definition exportBook :: "'z renderers \<Rightarrow> host \<Rightarrow> Book \<Rightarrow> 'z ExportOptions_scheme \<Rightarrow> unit run" where
  "exportBook rd h book options =
     (case (case format options of
              Kindle \<Rightarrow> exportToKindle rd h book options
            | Epub \<Rightarrow> exportToEPUB rd h book options
            | Pdf \<Rightarrow> exportToPDF rd h book options
            | Docx \<Rightarrow> exportToDocx rd h book options
            | PrintReady \<Rightarrow> exportPrintReady rd h book options
            | OtherFormat f \<Rightarrow> (Inl (JsError (''Unsupported export format: '' @ f)), []))
      of (Inl error, tr) \<Rightarrow> (Inl (JsError (''Export failed: '' @ errorMessage error)), tr)
       | (Inr done, tr) \<Rightarrow> (Inr done, tr))"

section \<open>Observations and reference notions\<close>

text \<open>
  The functions of this section are not part of the program. They read what the program
  produced (the fields of a generated document, the files offered by a run), or they are the
  notions the specification compares the program with; the latter carry the suffix \<open>_spec\<close>.
\<close>

fun fieldsAfter :: "string \<Rightarrow> char \<Rightarrow> string \<Rightarrow> string list" where
  \<comment> \<open>reading a document: for each place where \<open>tag\<close> occurs, from left to right, the text
     that follows it up to the next \<open>stop\<close> character\<close>
  "fieldsAfter tag stop [] = []"
| "fieldsAfter tag stop (c # cs) =
     (if prefix tag (c # cs)
      then takeWhile (\<lambda>x. x \<noteq> stop) (drop (length tag) (c # cs)) # fieldsAfter tag stop cs
      else fieldsAfter tag stop cs)"



definition packageIdentifiers :: "string \<Rightarrow> string list" where
  \<comment> \<open>the contents of the \<open>dc:identifier\<close> elements of a package document\<close>
  \<open>packageIdentifiers opf = fieldsAfter ''<dc:identifier id="bookid">'' CHR ''<'' opf\<close>

definition ncxUids \<comment> \<open>the \<open>dtb:uid\<close> values of a navigation document\<close>
  :: "string \<Rightarrow> string list" where
  \<open>ncxUids ncx = fieldsAfter ''<meta name="dtb:uid" content="'' (CHR 0x22) ncx\<close>

fun noStart :: "string \<Rightarrow> string \<Rightarrow> bool" where
  \<comment> \<open>no occurrence of \<open>tag\<close> starts inside the text, not even one that would run past its end\<close>
  "noStart tag [] = True"
| "noStart tag (c # cs) = (\<not> prefix tag (c # cs) \<and> \<not> prefix (c # cs) tag \<and> noStart tag cs)"

definition downloads :: "event list \<Rightarrow> (blob \<times> string) list" where
  \<comment> \<open>the files offered to the user: the calls of \<open>saveAs\<close> that returned\<close>
  "downloads tr = concat (map (\<lambda>e. case e of (SaveAs content name, None) \<Rightarrow> [(content, name)] | _ \<Rightarrow> []) tr)"

definition isFetch :: "call \<Rightarrow> bool" where
  "isFetch c = (case c of Fetch url \<Rightarrow> True | _ \<Rightarrow> False)"

definition textOf :: "archive \<Rightarrow> string \<Rightarrow> string option" where
  \<comment> \<open>the text stored in an archive under a path\<close>
  "textOf jszip path = (case Map_get jszip path of Some (TextFile t) \<Rightarrow> Some t | _ \<Rightarrow> None)"

definition escapeChar :: "char \<Rightarrow> string" where
  \<comment> \<open>what the five replacements of \<open>escapeXML\<close> do to one character\<close>
  "escapeChar c =
     (if c = CHR ''&'' then ''&amp;'' else if c = CHR ''<'' then ''&lt;''
      else if c = CHR ''>'' then ''&gt;'' else if c = CHR 0x22 then ''&quot;''
      else if c = CHR 0x27 then ''&#39;'' else [c])"

fun unescapeXML_spec :: "string \<Rightarrow> string" where
  \<comment> \<open>the standard XML unescape: the five predefined entities, read from left to right\<close>
  "unescapeXML_spec [] = []"
| "unescapeXML_spec (c # cs) =
     (if c = CHR ''&'' \<and> prefix ''amp;'' cs then CHR ''&'' # unescapeXML_spec (drop 4 cs)
      else if c = CHR ''&'' \<and> prefix ''lt;'' cs then CHR ''<'' # unescapeXML_spec (drop 3 cs)
      else if c = CHR ''&'' \<and> prefix ''gt;'' cs then CHR ''>'' # unescapeXML_spec (drop 3 cs)
      else if c = CHR ''&'' \<and> prefix ''quot;'' cs then CHR 0x22 # unescapeXML_spec (drop 5 cs)
      else if c = CHR ''&'' \<and> prefix ''#39;'' cs then CHR 0x27 # unescapeXML_spec (drop 4 cs)
      else c # unescapeXML_spec cs)"

function sanitizeRuns_spec :: "string \<Rightarrow> string" where
  \<comment> \<open>the sanitization of the specification: every maximal run of non-alphanumeric
     characters becomes one underscore, and the result is lower-cased\<close>
  "sanitizeRuns_spec [] = []"
| "sanitizeRuns_spec (c # cs) =
     (if isAsciiAlnum c then toLowerChar c # sanitizeRuns_spec cs
      else CHR ''_'' # sanitizeRuns_spec (dropWhile (\<lambda>x. \<not> isAsciiAlnum x) cs))"
  by pat_completeness auto
termination
  by (relation "measure length") (auto simp: less_Suc_eq_le length_dropWhile_le)

fun adjacentNonAlnum :: "string \<Rightarrow> bool" where
  \<comment> \<open>two non-alphanumeric characters stand next to each other\<close>
  "adjacentNonAlnum (a # b # cs) =
     ((\<not> isAsciiAlnum a \<and> \<not> isAsciiAlnum b) \<or> adjacentNonAlnum (b # cs))"
| "adjacentNonAlnum _ = False"

definition afterLastDot :: "string \<Rightarrow> string" where
  \<comment> \<open>the text after the last dot of a name; the whole name when it has no dot\<close>
  "afterLastDot s = rev (takeWhile (\<lambda>c. c \<noteq> CHR ''.'') (rev s))"

definition nonFetchThrows :: "event list \<Rightarrow> thrown list" where
  \<comment> \<open>the values thrown by the calls of a run other than the fetch of the cover\<close>
  "nonFetchThrows tr =
     concat (map (\<lambda>e. case e of (c, Some t) \<Rightarrow> if isFetch c then [] else [t] | _ \<Rightarrow> []) tr)"

definition runOk :: "'a run \<Rightarrow> bool" where
  \<comment> \<open>a run that succeeds has no such throw; a run that fails has exactly one, the value it
     rejects with, and offers no file\<close>
  "runOk x =
     (case x of
        (Inr a, tr) \<Rightarrow> nonFetchThrows tr = []
      | (Inl t, tr) \<Rightarrow> nonFetchThrows tr = [t] \<and> downloads tr = [])"

section \<open>Example data\<close>

definition exampleBook :: Book where
  "exampleBook =
     \<lparr>book_id = ''b1'', book_title = ''Test Title!'', book_author = ''A. Author'',
      book_genre = ''Fiction'', book_description = None, book_keywords = None,
      book_content = Some [\<lparr>entry_title = ''Ch 1'',
                             entry_content = ''Para one.\<newline>\<newline>Para two.'',
                             entry_order = 0, entry_wordCount = 4\<rparr>],
      book_coverUrl = None, book_images = None, book_sourceFile = None,
      book_targetLength = None, book_writingStyle = None, book_progress = Some 0,
      book_status = ''draft'', book_createdAt = Some 0, book_updatedAt = Some 0\<rparr>"

definition exampleInsert :: "string \<Rightarrow> InsertChapter" where
  "exampleInsert bookId =
     \<lparr>ins_bookId = bookId, ins_title = ''Ch 1'', ins_content = ''Para one.'', ins_order = 0,
      ins_wordCount = None, ins_status = None\<rparr>"



definition exampleRenderers :: "unit renderers" where
  "exampleRenderers =
     \<lparr>createKindleCSS = (\<lambda>options. ''/* Kindle-optimized styles */''),
      createEPUBCSS = (\<lambda>options. ''/* Standard EPUB styles */''),
      createPDFHTML = (\<lambda>book options. ''<!DOCTYPE html>''),
      createWordHTML = (\<lambda>book options. ''<!DOCTYPE html>''),
      createPrintReadyHTML = (\<lambda>book options. ''<!DOCTYPE html>'')\<rparr>"

definition exampleHost :: host where
  "exampleHost =
     \<lparr>fetchBlob = (\<lambda>url. Inr (Blob ''JFIF'' ''image/jpeg'')),
      generateAsync = (\<lambda>jszip. Inr (Blob ''PK'' ''application/zip'')),
      saveAs = (\<lambda>content name. None),
      windowOpen = Inr True,
      documentWrite = (\<lambda>htmlContent. None),
      documentClose = None,
      mathRandom = (\<lambda>i. 0)\<rparr>"



section \<open>XML escaping\<close>

lemma replaceAll_append: "replaceAll c r (xs @ ys) = replaceAll c r xs @ replaceAll c r ys"
  by (simp add: replaceAll_def)

lemma replaceAll_Nil: "replaceAll c r [] = []"
  by (simp add: replaceAll_def)

lemma replaceAll_Cons: "replaceAll c r (x # xs) = (if x = c then r else [x]) @ replaceAll c r xs"
  by (simp add: replaceAll_def)

lemma escapeXML_Nil: "escapeXML [] = []"
  by (simp add: escapeXML_def replaceAll_Nil)

lemma escapeXML_Cons: "escapeXML (c # cs) = escapeChar c @ escapeXML cs"
  by (simp add: escapeXML_def escapeChar_def replaceAll_Cons replaceAll_Nil replaceAll_append)

lemma escapeXML_concat: "escapeXML s = concat (map escapeChar s)"
  by (induction s) (simp_all add: escapeXML_Nil escapeXML_Cons)

lemma escapeXML_append: "escapeXML (xs @ ys) = escapeXML xs @ escapeXML ys"
  by (simp add: escapeXML_concat)

lemma unescapeXML_spec_escapeChar: "unescapeXML_spec (escapeChar c @ rest) = c # unescapeXML_spec rest"
  by (simp add: escapeChar_def)

text \<open>
  Claim C8. Decoding the output of \<open>escapeXML\<close> with the standard XML unescape (the five
  entities \<open>&amp;\<close>, \<open>&lt;\<close>, \<open>&gt;\<close>, \<open>&quot;\<close>, \<open>&#39;\<close> read back from left to right) gives the
  original string, for every input.
\<close>

theorem escapeXML_roundtrip: "unescapeXML_spec (escapeXML s) = s"
  by (induction s)
     (simp_all add: escapeXML_Nil escapeXML_Cons unescapeXML_spec_escapeChar del: unescapeXML_spec.simps(2))

section \<open>Paragraph splitting\<close>

lemma splitFrom_no_sep:
  "\<not> sublist sep s \<Longrightarrow> splitFrom sep acc s = [rev acc @ s]"
proof (induction s arbitrary: acc)
  case Nil
  then show ?case by simp
next
  case (Cons c cs)
  from Cons.prems have np: "\<not> prefix sep (c # cs)" and ns: "\<not> sublist sep cs"
    by (simp_all add: sublist_Cons_right)
  from np have "splitFrom sep acc (c # cs) = splitFrom sep (c # acc) cs"
    by simp
  also have "\<dots> = [rev (c # acc) @ cs]"
    by (rule Cons.IH [OF ns])
  finally show ?case by simp
qed

lemma split_no_sep: "sep \<noteq> [] \<Longrightarrow> \<not> sublist sep s \<Longrightarrow> split sep s = [s]"
  by (simp add: split_def splitFrom_no_sep)

text \<open>
  Claim C7, as the specification states it: content without a blank-line separator becomes one
  paragraph holding the escaped original text. The code trims each paragraph before escaping
  it, so the statement fails as soon as the content starts or ends with white space.
\<close>

theorem formatChapterContent_untrimmed_counterexample:
  "\<not> sublist (NL @ NL) '' a'' \<and>
   formatChapterContent '' a'' \<noteq> ''<p>'' @ escapeXML '' a'' @ ''</p>''"
proof -
  have h: "\<not> sublist (NL @ NL) '' a''" by (simp add: NL_def sublist_Cons_right)
  have s: "split (NL @ NL) '' a'' = ['' a'']" by (simp add: NL_def split_def)
  have t: "trim '' a'' = ''a''" by (simp add: trim_def isWhiteSpace_def)
  have e: "escapeXML ''a'' = ''a''" "escapeXML '' a'' = '' a''"
    by (simp_all add: escapeXML_def replaceAll_def)
  have "formatChapterContent '' a'' = ''<p>a</p>''"
    by (simp add: formatChapterContent_def s t e)
  with h e show ?thesis by simp
qed

text \<open>
  Claim C7, amended: content without a blank-line separator becomes exactly one paragraph
  element, whose body is the escaped text of the content with its leading and trailing white
  space trimmed.
\<close>

theorem formatChapterContent_single:
  "\<not> sublist (NL @ NL) s \<Longrightarrow>
   formatChapterContent s = ''<p>'' @ escapeXML (trim s) @ ''</p>''"
  by (simp add: formatChapterContent_def split_no_sep NL_def)

theorem formatChapterContent_single_witness:
  "\<not> sublist (NL @ NL) '' a<b '' \<and> formatChapterContent '' a<b '' = ''<p>a&lt;b</p>''"
proof -
  have h: "\<not> sublist (NL @ NL) '' a<b ''" by (simp add: NL_def sublist_Cons_right)
  have t: "trim '' a<b '' = ''a<b''" by (simp add: trim_def isWhiteSpace_def)
  have e: "escapeXML ''a<b'' = ''a&lt;b''" by (simp add: escapeXML_def replaceAll_def)
  show ?thesis using h formatChapterContent_single [OF h] by (simp add: t e)
qed

lemma formatChapterContent_example:
  "formatChapterContent ''Para one.\<newline>\<newline>Para two.''
     = ''<p>Para one.</p>\<newline><p>Para two.</p>''"
  by code_simp

section \<open>File name sanitization\<close>

lemma toLowerChar_underscore: "toLowerChar CHR ''_'' = CHR ''_''"
  by (simp add: toLowerChar_def)

lemma sanitizeFilename_map:
  "sanitizeFilename s = map (\<lambda>c. if isAsciiAlnum c then toLowerChar c else CHR ''_'') s"
  by (simp add: sanitizeFilename_def toLowerCase_def toLowerChar_underscore)

lemma length_sanitizeRuns_le: "length (sanitizeRuns_spec s) \<le> length s"
proof (induction s rule: sanitizeRuns_spec.induct)
  case 1
  then show ?case by simp
next
  case (2 c cs)
  show ?case
  proof (cases "isAsciiAlnum c")
    case True
    with 2 show ?thesis by simp
  next
    case False
    have "length (dropWhile (\<lambda>x. \<not> isAsciiAlnum x) cs) \<le> length cs"
      by (rule length_dropWhile_le)
    with 2 False show ?thesis by simp
  qed
qed

lemma sanitizeRuns_adjacent_shorter:
  "adjacentNonAlnum s \<Longrightarrow> length (sanitizeRuns_spec s) < length s"
proof (induction s rule: adjacentNonAlnum.induct)
  case (1 a b cs)
  show ?case
  proof (cases "isAsciiAlnum a")
    case True
    with 1 show ?thesis by simp
  next
    case na: False
    show ?thesis
    proof (cases "isAsciiAlnum b")
      case True
      with 1 na have "adjacentNonAlnum (b # cs)" by simp
      with 1 have "length (sanitizeRuns_spec (b # cs)) < length (b # cs)" by simp
      with na True show ?thesis by simp
    next
      case False
      have "length (sanitizeRuns_spec (dropWhile (\<lambda>x. \<not> isAsciiAlnum x) cs))
            \<le> length (dropWhile (\<lambda>x. \<not> isAsciiAlnum x) cs)"
        by (rule length_sanitizeRuns_le)
      also have "\<dots> \<le> length cs" by (rule length_dropWhile_le)
      finally show ?thesis using na False by simp
    qed
  qed
qed simp_all

lemma sanitizeRuns_no_adjacent:
  "\<not> adjacentNonAlnum s \<Longrightarrow>
   sanitizeRuns_spec s = map (\<lambda>c. if isAsciiAlnum c then toLowerChar c else CHR ''_'') s"
proof (induction s rule: adjacentNonAlnum.induct)
  case (1 a b cs)
  then show ?case by (cases "isAsciiAlnum a"; cases "isAsciiAlnum b") auto
qed simp_all

text \<open>
  Claim C6, as the specification states it: every maximal run of non-alphanumeric characters
  becomes a single underscore (\<open>sanitizeRuns_spec\<close>). The pattern of the code has no repetition
  operator, so two adjacent non-alphanumeric characters give two underscores.
\<close>

theorem sanitizeFilename_runs_counterexample:
  "sanitizeFilename ''a!!B'' \<noteq> sanitizeRuns_spec ''a!!B''"
  by code_simp

text \<open>
  Claim C6, amended: \<open>sanitizeFilename\<close> replaces each non-alphanumeric character by one
  underscore of its own and lower-cases the letters, so the result has the length of the
  input; it is the run-collapsing result exactly when the input has no two adjacent
  non-alphanumeric characters.
\<close>

theorem sanitizeFilename_chars:
  "sanitizeFilename s = map (\<lambda>c. if isAsciiAlnum c then toLowerChar c else CHR ''_'') s
   \<and> (sanitizeFilename s = sanitizeRuns_spec s \<longleftrightarrow> \<not> adjacentNonAlnum s)"
proof -
  have a: "sanitizeFilename s = map (\<lambda>c. if isAsciiAlnum c then toLowerChar c else CHR ''_'') s"
    by (rule sanitizeFilename_map)
  have b: "sanitizeFilename s = sanitizeRuns_spec s" if "\<not> adjacentNonAlnum s"
    using that by (simp add: a sanitizeRuns_no_adjacent)
  have c: "sanitizeFilename s \<noteq> sanitizeRuns_spec s" if "adjacentNonAlnum s"
  proof
    assume "sanitizeFilename s = sanitizeRuns_spec s"
    then have "length (sanitizeFilename s) = length (sanitizeRuns_spec s)" by simp
    with sanitizeRuns_adjacent_shorter [OF that] show False by (simp add: a)
  qed
  from a b c show ?thesis by blast
qed

theorem sanitizeFilename_chars_witness:
  "sanitizeFilename ''Test Title!'' = ''test_title_'' \<and>
   sanitizeRuns_spec ''Test Title!'' = ''test_title_'' \<and>
   \<not> adjacentNonAlnum ''Test Title!''"
proof -
  have n: "\<not> adjacentNonAlnum ''Test Title!''" by code_simp
  have v: "sanitizeFilename ''Test Title!'' = ''test_title_''" by code_simp
  have "sanitizeFilename ''Test Title!'' = sanitizeRuns_spec ''Test Title!''
        \<longleftrightarrow> \<not> adjacentNonAlnum ''Test Title!''"
    using sanitizeFilename_chars [of "''Test Title!''"] by (rule conjunct2)
  with n have e: "sanitizeFilename ''Test Title!'' = sanitizeRuns_spec ''Test Title!''"
    by (rule iffD2 [rotated])
  have r: "sanitizeRuns_spec ''Test Title!'' = ''test_title_''"
    by (rule trans [OF e [symmetric] v])
  show ?thesis by (rule conjI [OF v conjI [OF r n]])
qed

section \<open>File type validation\<close>

lemma afterLastDot_Cons:
  "afterLastDot (c # cs) =
     (if CHR ''.'' \<in> set cs then afterLastDot cs else if c = CHR ''.'' then cs else c # cs)"
proof (cases "CHR ''.'' \<in> set cs")
  case True
  then have "\<exists>x\<in>set (rev cs). \<not> x \<noteq> CHR ''.''" by simp
  then show ?thesis using True
    by (simp add: afterLastDot_def takeWhile_append1 del: set_rev)
next
  case False
  then have "\<forall>x\<in>set (rev cs). x \<noteq> CHR ''.''" by auto
  then show ?thesis using False
    by (simp add: afterLastDot_def takeWhile_append2 del: set_rev)
qed

lemma afterLastDot_no_dot: "CHR ''.'' \<notin> set s \<Longrightarrow> afterLastDot s = s"
  by (induction s) (auto simp: afterLastDot_Cons afterLastDot_def)

lemma afterLastDot_ext: "CHR ''.'' \<notin> set ext \<Longrightarrow> afterLastDot (base @ CHR ''.'' # ext) = ext"
  by (induction base) (simp_all add: afterLastDot_Cons)

lemma splitFrom_ne: "splitFrom sep acc s \<noteq> []"
  by (induction s arbitrary: acc) simp_all

lemma last_splitFrom_dot:
  "last (splitFrom ''.'' acc s) = (if CHR ''.'' \<in> set s then afterLastDot s else rev acc @ s)"
proof (induction s arbitrary: acc)
  case Nil
  then show ?case by simp
next
  case (Cons c cs)
  show ?case
  proof (cases "c = CHR ''.''")
    case True
    then show ?thesis
      by (simp add: Cons.IH splitFrom_ne afterLastDot_Cons)
  next
    case False
    then show ?thesis
      by (simp add: Cons.IH afterLastDot_Cons)
  qed
qed

lemma last_split_dot: "last (split ''.'' s) = afterLastDot s"
  by (simp add: split_def last_splitFrom_dot afterLastDot_no_dot)

lemma toLowerChar_eq_dot: "toLowerChar c = CHR ''.'' \<longleftrightarrow> c = CHR ''.''"
proof
  assume a: "toLowerChar c = CHR ''.''"
  show "c = CHR ''.''"
  proof (rule ccontr)
    assume n: "c \<noteq> CHR ''.''"
    with a have up: "(65 \<le> (of_char c :: nat) \<and> (of_char c :: nat) \<le> 90)
         \<or> (192 \<le> (of_char c :: nat) \<and> (of_char c :: nat) \<le> 222 \<and> (of_char c :: nat) \<noteq> 215)"
      and eq: "char_of ((of_char c :: nat) + 32) = CHR ''.''"
      by (auto simp: toLowerChar_def Let_def split: if_splits)
    from eq have "(of_char (char_of ((of_char c :: nat) + 32) :: char) :: nat) = of_char CHR ''.''"
      by simp
    then have m: "((of_char c :: nat) + 32) mod 256 = 46" by simp
    from up have "(of_char c :: nat) + 32 < 256" by linarith
    with m have "(of_char c :: nat) + 32 = 46" by simp
    with up show False by linarith
  qed
next
  assume "c = CHR ''.''"
  then show "toLowerChar c = CHR ''.''" by (simp add: toLowerChar_def)
qed

lemma afterLastDot_toLowerCase: "afterLastDot (toLowerCase s) = toLowerCase (afterLastDot s)"
proof -
  have "takeWhile (\<lambda>c. c \<noteq> CHR ''.'') (map toLowerChar (rev s))
        = map toLowerChar (takeWhile ((\<lambda>c. c \<noteq> CHR ''.'') \<circ> toLowerChar) (rev s))"
    by (rule takeWhile_map)
  also have "(\<lambda>c. c \<noteq> CHR ''.'') \<circ> toLowerChar = (\<lambda>c. c \<noteq> CHR ''.'')"
    by (rule ext) (simp add: toLowerChar_eq_dot)
  finally show ?thesis
    by (simp add: afterLastDot_def toLowerCase_def rev_map)
qed

lemma validateFileType_afterLastDot:
  "validateFileType filename \<longleftrightarrow> toLowerCase (afterLastDot filename) \<in> set allowedExtensions"
proof -
  have "pop (split ''.'' (toLowerCase filename)) = Some (afterLastDot (toLowerCase filename))"
    by (simp add: pop_def last_split_dot) (simp add: split_def splitFrom_ne)
  then show ?thesis
    by (simp add: validateFileType_def afterLastDot_toLowerCase)
qed

text \<open>
  Claim C5, as the specification states it: a file name with no extension is always rejected.
  The code takes the text after the last dot and, when the name has no dot at all, the whole
  name; a file called \<open>pdf\<close> is accepted.
\<close>

theorem validateFileType_no_extension_counterexample:
  "CHR ''.'' \<notin> set ''pdf'' \<and> validateFileType ''pdf''"
  by code_simp

text \<open>
  Claim C5, amended: \<open>validateFileType\<close> accepts a file name exactly when the text after its
  last dot (the whole name when it contains no dot), lower-cased, is one of the nine allowed
  extensions. So a name \<open>base.ext\<close> is accepted exactly when \<open>ext\<close> is one of the nine,
  compared without regard to case, and a name without a dot is accepted exactly when the name
  itself is.
\<close>

theorem validateFileType_iff:
  "(validateFileType filename \<longleftrightarrow>
      toLowerCase (afterLastDot filename) \<in> set allowedExtensions)
   \<and> (CHR ''.'' \<notin> set ext \<longrightarrow>
        (validateFileType (base @ CHR ''.'' # ext) \<longleftrightarrow> toLowerCase ext \<in> set allowedExtensions))
   \<and> (CHR ''.'' \<notin> set filename \<longrightarrow>
        (validateFileType filename \<longleftrightarrow> toLowerCase filename \<in> set allowedExtensions))"
  by (simp add: validateFileType_afterLastDot afterLastDot_ext afterLastDot_no_dot)

theorem validateFileType_iff_witness:
  "CHR ''.'' \<notin> set ''PDF'' \<and> validateFileType (''My.Book'' @ CHR ''.'' # ''PDF'')
   \<and> CHR ''.'' \<notin> set ''readme'' \<and> \<not> validateFileType ''readme''"
proof -
  have d: "CHR ''.'' \<notin> set ''PDF''" "CHR ''.'' \<notin> set ''readme''" by simp_all
  have a: "toLowerCase ''PDF'' \<in> set allowedExtensions" by code_simp
  have b: "toLowerCase ''readme'' \<notin> set allowedExtensions" by code_simp
  from validateFileType_iff [of "''readme''" "''PDF''" "''My.Book''"] d a b
  show ?thesis by blast
qed

section \<open>The repository: cascade delete and chapter creation\<close>

lemma foldl_Map_delete:
  "foldl (\<lambda>m c. Map_delete (f c) m) m cs = filter (\<lambda>(k, v). k \<notin> f ` set cs) m"
proof (induction cs arbitrary: m)
  case Nil
  then show ?case by simp
next
  case (Cons c cs)
  have "foldl (\<lambda>m c. Map_delete (f c) m) m (c # cs)
        = filter (\<lambda>(k, v). k \<notin> f ` set cs) (Map_delete (f c) m)"
    by (simp add: Cons.IH)
  also have "\<dots> = filter (\<lambda>(k, v). k \<notin> f ` set (c # cs)) m"
    unfolding Map_delete_def filter_filter by (rule filter_cong) auto
  finally show ?case .
qed

lemma keyed_unique:
  assumes "keyed ident m" "(k, v) \<in> set m" "(k', v') \<in> set m" "ident v' = k"
  shows "v' = v"
proof -
  from assms(1,3) have "ident v' = k'" by (auto simp: keyed_def list_all_iff)
  with assms(4) have "k' = k" by simp
  with assms(1,2,3) show ?thesis
    by (metis keyed_def eq_key_imp_eq_value)
qed

lemma cascade_filter:
  assumes "keyed ident m"
  shows "filter (\<lambda>(k, v). k \<notin> ident ` {v \<in> set (Map_values m). owner v = b}) m
         = filter (\<lambda>(k, v). owner v \<noteq> b) m"
proof (rule filter_cong [OF refl])
  fix e assume e: "e \<in> set m"
  obtain k v where kv: "e = (k, v)" by (cases e)
  from assms e kv have id: "ident v = k" by (auto simp: keyed_def list_all_iff)
  have "k \<in> ident ` {v \<in> set (Map_values m). owner v = b} \<longleftrightarrow> owner v = b"
  proof
    assume "k \<in> ident ` {v \<in> set (Map_values m). owner v = b}"
    then obtain k' v' where m': "(k', v') \<in> set m" and o: "owner v' = b" and i: "ident v' = k"
      by (auto simp: Map_values_def)
    from keyed_unique [OF assms _ m' i] e kv have "v' = v" by simp
    with o show "owner v = b" by simp
  next
    assume "owner v = b"
    with e kv id show "k \<in> ident ` {v \<in> set (Map_values m). owner v = b}"
      by (force simp: Map_values_def)
  qed
  then show "(case e of (k, v) \<Rightarrow> k \<notin> ident ` {v \<in> set (Map_values m). owner v = b})
             = (case e of (k, v) \<Rightarrow> owner v \<noteq> b)"
    by (simp add: kv)
qed

lemma deleteBook_chapters:
  "keyed chapter_id (chapters s) \<Longrightarrow>
   chapters (snd (deleteBook s ident)) = filter (\<lambda>(k, c). chapter_bookId c \<noteq> ident) (chapters s)"
  by (simp add: deleteBook_def Let_def foldl_Map_delete cascade_filter)

lemma deleteBook_covers:
  "keyed cover_id (covers s) \<Longrightarrow>
   covers (snd (deleteBook s ident)) = filter (\<lambda>(k, c). cover_bookId c \<noteq> ident) (covers s)"
  by (simp add: deleteBook_def Let_def foldl_Map_delete cascade_filter)

lemma deleteBook_books:
  "books (snd (deleteBook s ident)) = filter (\<lambda>(k, b). k \<noteq> ident) (books s)"
  by (simp add: deleteBook_def Let_def Map_delete_def)




lemma keyed_filter: "keyed ident m \<Longrightarrow> keyed ident (filter P m)"
  by (auto simp: keyed_def list_all_iff distinct_map_filter)

lemma keyed_Map_delete: "keyed ident m \<Longrightarrow> keyed ident (Map_delete k m)"
  by (simp add: Map_delete_def keyed_filter)

lemma map_fst_replace:
  "map fst (map (\<lambda>(k', v'). if k' = k then (k', v) else (k', v')) m) = map fst m"
  by (induction m) auto

lemma keyed_Map_set:
  assumes "keyed ident m" "ident v = k"
  shows "keyed ident (Map_set k v m)"
proof (cases "Map_has m k")
  case True
  let ?m' = "map (\<lambda>(k', v'). if k' = k then (k', v) else (k', v')) m"
  from assms(1) have "distinct (map fst ?m')"
    by (simp only: map_fst_replace keyed_def)
  moreover from assms have "list_all (\<lambda>(k, v). ident v = k) ?m'"
    by (auto simp: keyed_def list_all_iff split: if_splits)
  ultimately show ?thesis using True by (simp add: keyed_def Map_set_def)
next
  case False
  with assms show ?thesis by (auto simp: keyed_def Map_set_def Map_has_def)
qed

text \<open>
  The keys of a \<open>Map\<close> stay distinct whatever is stored: this part of \<open>keyed\<close> holds of every
  map that the operations build from the empty one.
\<close>

lemma distinct_Map_set: "distinct (map fst m) \<Longrightarrow> distinct (map fst (Map_set k v m))"
proof (cases "Map_has m k")
  case True
  assume d: "distinct (map fst m)"
  from True have "Map_set k v m = map (\<lambda>(k', v'). if k' = k then (k', v) else (k', v')) m"
    by (simp add: Map_set_def)
  with d show ?thesis by (simp only: map_fst_replace)
next
  case False
  assume "distinct (map fst m)"
  with False show ?thesis by (simp add: Map_set_def Map_has_def)
qed

lemma distinct_Map_delete: "distinct (map fst m) \<Longrightarrow> distinct (map fst (Map_delete k m))"
  by (simp add: Map_delete_def distinct_map_filter)

lemma Map_get_Map_set: "Map_get (Map_set k v m) k = Some v"
proof (cases "Map_has m k")
  case True
  have "k \<in> fst ` set m \<Longrightarrow>
        map_of (map (\<lambda>(k', v'). if k' = k then (k', v) else (k', v')) m) k = Some v"
    by (induction m) auto
  with True show ?thesis by (simp add: Map_get_def Map_set_def Map_has_def)
next
  case False
  then have "map_of m k = None" by (simp add: Map_has_def map_of_eq_None_iff)
  with False show ?thesis by (simp add: Map_get_def Map_set_def map_of_append map_add_def)
qed

lemma Map_values_Map_set: "v \<in> set (Map_values (Map_set k v m))"
proof (cases "Map_has m k")
  case True
  then obtain w where "(k, w) \<in> set m" by (auto simp: Map_has_def)
  then have "(k, v) \<in> (\<lambda>(k', v'). if k' = k then (k', v) else (k', v')) ` set m"
    by force
  then have "(k, v) \<in> set (Map_set k v m)" using True by (simp add: Map_set_def)
  then show ?thesis unfolding Map_values_def by force
next
  case False
  then show ?thesis by (simp add: Map_values_def Map_set_def)
qed

lemma storageInv_empty: "storageInv emptyStorage"
  by (simp add: storageInv_def emptyStorage_def keyed_def)


lemma storageInv_createCover:
  "storageInv s \<Longrightarrow> storageInv (snd (createCover s ins ident now))"
  by (simp add: storageInv_def createCover_def Let_def keyed_Map_set)

lemma storageInv_deleteChapter: "storageInv s \<Longrightarrow> storageInv (snd (deleteChapter s ident))"
  by (simp add: storageInv_def deleteChapter_def keyed_Map_delete)

lemma storageInv_deleteCover: "storageInv s \<Longrightarrow> storageInv (snd (deleteCover s ident))"
  by (simp add: storageInv_def deleteCover_def keyed_Map_delete)

lemma storageInv_deleteBook: "storageInv s \<Longrightarrow> storageInv (snd (deleteBook s ident))"
  by (simp add: storageInv_def deleteBook_chapters deleteBook_covers deleteBook_books
        keyed_filter distinct_map_filter)

lemma keyed_Map_get: "keyed ident m \<Longrightarrow> Map_get m k = Some v \<Longrightarrow> ident v = k"
  by (auto simp: keyed_def Map_get_def list_all_iff dest: map_of_SomeD)

lemma storageInv_updateChapter:
  assumes "storageInv s" "upd_id upd = None"
  shows "storageInv (snd (updateChapter s ident upd now))"
proof (cases "Map_get (chapters s) ident")
  case None
  with assms show ?thesis by (simp add: updateChapter_def)
next
  case (Some existing)
  from assms have k: "keyed chapter_id (chapters s)" by (simp add: storageInv_def)
  from keyed_Map_get [OF k Some] have "chapter_id existing = ident" .
  with assms Some show ?thesis
    by (simp add: updateChapter_def Let_def storageInv_def keyed_Map_set orKeep_def)
qed

lemma storageInv_updateCover:
  assumes "storageInv s" "updc_id upd = None"
  shows "storageInv (snd (updateCover s ident upd))"
proof (cases "Map_get (covers s) ident")
  case None
  with assms show ?thesis by (simp add: updateCover_def)
next
  case (Some existing)
  from assms have k: "keyed cover_id (covers s)" by (simp add: storageInv_def)
  from keyed_Map_get [OF k Some] have "cover_id existing = ident" .
  with assms Some show ?thesis
    by (simp add: updateCover_def Let_def storageInv_def keyed_Map_set orKeep_def)
qed

text \<open>
  An update whose object has an \<open>id\<close> leaves the chapter under the key it had and gives it
  the new id: from then on the chapter is stored under a key that is not its id.
\<close>

lemma updateChapter_id:
  assumes "Map_get (chapters s) ident = Some existing" "upd_id upd = Some i"
  shows "\<exists>c. Map_get (chapters (snd (updateChapter s ident upd now))) ident = Some c
             \<and> chapter_id c = i"
  using assms by (simp add: updateChapter_def Let_def Map_get_Map_set orKeep_def)

lemma updateChapter_breaks_storageInv:
  assumes "Map_get (chapters s) ident = Some existing" "upd_id upd = Some i" "i \<noteq> ident"
  shows "\<not> storageInv (snd (updateChapter s ident upd now))"
proof
  assume inv: "storageInv (snd (updateChapter s ident upd now))"
  from updateChapter_id [OF assms(1,2), of now] obtain c
    where c: "Map_get (chapters (snd (updateChapter s ident upd now))) ident = Some c"
      and i: "chapter_id c = i" by auto
  from inv have "keyed chapter_id (chapters (snd (updateChapter s ident upd now)))"
    by (simp add: storageInv_def)
  from keyed_Map_get [OF this c] i assms(3) show False by simp
qed










lemma createChapter_chapters:
  "chapters (snd (createChapter s ins ident now))
     = Map_set ident (fst (createChapter s ins ident now)) (chapters s)"
  by (simp add: createChapter_def Let_def)

lemma createChapter_bookId:
  "chapter_bookId (fst (createChapter s ins ident now)) = ins_bookId ins"
  by (simp add: createChapter_def Let_def)



lemma createChapter_books: "books (snd (createChapter s ins ident now)) = books s"
  by (simp add: createChapter_def Let_def)







text \<open>
  Claim C9. \<open>createChapter\<close> looks at no book: in every repository state, with or without a
  book of that id, the new chapter is stored under its id, carries the requested \<open>bookId\<close>,
  and is among the chapters \<open>getChaptersByBookId\<close> returns for that \<open>bookId\<close>; the books are
  untouched.
\<close>

theorem createChapter_stored:
  "fst (createChapter s ins ident now)
     \<in> set (getChaptersByBookId (snd (createChapter s ins ident now)) (ins_bookId ins))
   \<and> Map_get (chapters (snd (createChapter s ins ident now))) ident
       = Some (fst (createChapter s ins ident now))
   \<and> chapter_bookId (fst (createChapter s ins ident now)) = ins_bookId ins
   \<and> books (snd (createChapter s ins ident now)) = books s"
  by (simp add: getChaptersByBookId_def createChapter_chapters createChapter_bookId
        createChapter_books Map_get_Map_set Map_values_Map_set)


lemma createChapter_orphan_example:
  "getBook emptyStorage ''b2'' = None
   \<and> map chapter_id (getChaptersByBookId
        (snd (createChapter emptyStorage (exampleInsert ''b2'') ''c1'' 0)) ''b2'') = [''c1'']"
  by (simp add: getBook_def Map_get_def emptyStorage_def getChaptersByBookId_def createChapter_def
        Let_def Map_set_def Map_has_def Map_values_def exampleInsert_def)


section \<open>Reading the generated documents\<close>

lemma fieldsAfter_skip:
  "c0 \<notin> set u \<Longrightarrow> fieldsAfter (c0 # t) stop (u @ v) = fieldsAfter (c0 # t) stop v"
  by (induction u) auto

lemma escapeChar_chars:
  "x \<in> set (escapeChar c) \<Longrightarrow> x \<noteq> CHR ''<'' \<and> x \<noteq> CHR 0x22"
  by (auto simp: escapeChar_def split: if_splits)

lemma escapeXML_chars:
  "x \<in> set (escapeXML s) \<Longrightarrow> x \<noteq> CHR ''<'' \<and> x \<noteq> CHR 0x22"
  by (auto simp: escapeXML_concat dest: escapeChar_chars)

lemma escapeXML_no_lt [simp]: "CHR ''<'' \<notin> set (escapeXML s)"
  using escapeXML_chars by blast

lemma digitsOf_range: "x \<in> set (digitsOf n) \<Longrightarrow> 48 \<le> (of_char x :: nat) \<and> (of_char x :: nat) \<le> 57"
proof (induction n rule: digitsOf.induct)
  case (1 n)
  show ?case
  proof (cases "n < 10")
    case True
    with 1(2) have "x = char_of (48 + n)" by (simp add: digitsOf.simps [of n])
    with True show ?thesis by simp
  next
    case False
    with 1(2) have "x \<in> set (digitsOf (n div 10)) \<or> x = char_of (48 + n mod 10)"
      by (auto simp: digitsOf.simps [of n])
    then show ?thesis
    proof
      assume "x \<in> set (digitsOf (n div 10))"
      with 1(1) False show ?thesis by simp
    next
      assume x: "x = char_of (48 + n mod 10)"
      have "n mod 10 < 10" by simp
      then have "(48 + n mod 10) mod 256 = 48 + n mod 10" by simp
      with x show ?thesis by simp
    qed
  qed
qed

lemma digitsOf_no_lt [simp]: "CHR ''<'' \<notin> set (digitsOf n)"
  using digitsOf_range [of "CHR ''<''" n] by auto

lemma digitsOf_no_quote [simp]: "x \<in> set (digitsOf n) \<Longrightarrow> x \<noteq> CHR 0x22"
  using digitsOf_range [of "CHR 0x22" n] by auto

lemma fieldsAfter_join:
  assumes item: "\<And>n rest. fieldsAfter tag stop (f n @ rest) = g n @ fieldsAfter tag stop rest"
      and sep: "\<And>rest. fieldsAfter tag stop (sep @ rest) = fieldsAfter tag stop rest"
  shows "fieldsAfter tag stop (join sep (map f ns) @ rest)
           = concat (map g ns) @ fieldsAfter tag stop rest"
proof (induction ns rule: induct_list012)
  case 1
  then show ?case by simp
next
  case (2 n)
  then show ?case by (simp add: item del: fieldsAfter.simps)
next
  case (3 n m ns)
  have "fieldsAfter tag stop (join sep (map f (n # m # ns)) @ rest)
        = fieldsAfter tag stop (f n @ sep @ join sep (map f (m # ns)) @ rest)"
    by simp
  also have "\<dots> = g n @ fieldsAfter tag stop (sep @ join sep (map f (m # ns)) @ rest)"
    by (rule item)
  also have "fieldsAfter tag stop (sep @ join sep (map f (m # ns)) @ rest)
             = fieldsAfter tag stop (join sep (map f (m # ns)) @ rest)"
    by (rule sep)
  also have "\<dots> = concat (map g (m # ns)) @ fieldsAfter tag stop rest"
    by (rule "3.IH"(2))
  finally show ?case by simp
qed






lemma concat_map_none: "concat (map (\<lambda>n. []) ns) = []"
  by (induction ns) simp_all





lemma hexDigit_mem: "hexDigit v \<in> set ''0123456789abcdef''"
proof -
  have "unat v < 2 ^ 4" using unsigned_less [of v] by simp
  then have "unat v < length ''0123456789abcdef''" by simp
  then show ?thesis unfolding hexDigit_def by (rule nth_mem)
qed

lemma hexDigit_plain: "hexDigit v \<noteq> CHR ''<'' \<and> hexDigit v \<noteq> CHR 0x22"
  using hexDigit_mem [of v] by auto

lemma uuidFill_all:
  assumes h: "\<And>v. P (hexDigit v)"
  shows "(\<And>c. c \<in> set t \<Longrightarrow> P c) \<Longrightarrow> x \<in> set (fst (uuidFill t r)) \<Longrightarrow> P x"
proof (induction t arbitrary: r)
  case Nil
  then show ?case by simp
next
  case (Cons c t)
  have t: "\<And>c. c \<in> set t \<Longrightarrow> P c" using Cons.prems(1) by simp
  show ?case
  proof (cases "c = CHR ''x'' \<or> c = CHR ''y''")
    case True
    with Cons.prems(2) have "(\<exists>v. x = hexDigit v) \<or> x \<in> set (fst (uuidFill t (snd (nextRandom16 r))))"
      by (auto simp: Let_def split_beta)
    then show ?thesis using h Cons.IH [OF t] by blast
  next
    case False
    with Cons.prems(2) have "x = c \<or> x \<in> set (fst (uuidFill t r))"
      by (auto simp: Let_def split_beta)
    then show ?thesis using Cons.prems(1) Cons.IH [OF t] by auto
  qed
qed

lemma generateUUID_chars:
  assumes "x \<in> set (fst (generateUUID r))"
  shows "x \<noteq> CHR ''<'' \<and> x \<noteq> CHR 0x22"
proof -
  let ?P = "\<lambda>x. x \<noteq> CHR ''<'' \<and> x \<noteq> CHR 0x22"
  from assms have m: "x \<in> set (fst (uuidFill ''xxxxxxxx-xxxx-4xxx-yxxx-xxxxxxxxxxxx'' r))"
    by (simp only: generateUUID_def)
  have t: "\<And>c. c \<in> set ''xxxxxxxx-xxxx-4xxx-yxxx-xxxxxxxxxxxx'' \<Longrightarrow> ?P c"
    by auto
  show ?thesis
    by (rule uuidFill_all [where P = ?P, OF hexDigit_plain t m])
qed

lemma generateUUID_no_lt [simp]: "CHR ''<'' \<notin> set (fst (generateUUID r))"
  using generateUUID_chars by blast



lemma fieldsAfter_skip_text:
  "noStart tag u \<Longrightarrow> fieldsAfter tag stop (u @ v) = fieldsAfter tag stop v"
proof (induction u)
  case Nil
  then show ?case by simp
next
  case (Cons c cs)
  then have a: "\<not> prefix tag (c # cs)" and b: "\<not> prefix (c # cs) tag" and n: "noStart tag cs"
    by simp_all
  have "\<not> prefix tag ((c # cs) @ v)"
  proof
    assume "prefix tag ((c # cs) @ v)"
    then have "prefix tag (c # cs) \<or> prefix (c # cs) tag"
      by (auto simp: prefix_append simp del: append_Cons)
    with a b show False by simp
  qed
  then have "fieldsAfter tag stop ((c # cs) @ v) = fieldsAfter tag stop (cs @ v)"
    by simp
  with Cons.IH [OF n] show ?case by simp
qed




section \<open>The package document\<close>






section \<open>The identifiers of an exported archive\<close>

lemma Map_get_Map_set_other: "k' \<noteq> k \<Longrightarrow> Map_get (Map_set k' v m) k = Map_get m k"
proof (cases "Map_has m k'")
  case True
  assume "k' \<noteq> k"
  then have "map_of (map (\<lambda>(a, b). if a = k' then (a, v) else (a, b)) m) k = map_of m k"
    by (induction m) auto
  with True show ?thesis by (simp add: Map_get_def Map_set_def)
next
  case False
  assume "k' \<noteq> k"
  with False show ?thesis
    by (auto simp: Map_get_def Map_set_def map_add_def split: option.splits)
qed

lemma Map_get_zipFolder: "k \<noteq> name @ ''/'' \<Longrightarrow> Map_get (zipFolder name z) k = Map_get z k"
  by (auto simp: zipFolder_def Map_get_def map_add_def split: option.splits)

lemma Map_get_zipFile_other: "k' \<noteq> k \<Longrightarrow> Map_get (zipFile k' v z) k = Map_get z k"
  by (simp add: zipFile_def Map_get_Map_set_other)

lemma Map_get_zipFile_same: "Map_get (zipFile k v z) k = Some v"
  by (simp add: zipFile_def Map_get_Map_set)

lemma Map_get_foldl_chapters:
  assumes "\<And>i. ''OEBPS/chapter'' @ digitsOf (i + 1) @ ''.xhtml'' \<noteq> path"
  shows "Map_get (foldl (\<lambda>z (index, chapter).
              zipFile (''OEBPS/chapter'' @ digitsOf (index + 1) @ ''.xhtml'')
                      (TextFile (createChapterXHTML chapter options)) z) z0 ps) path
         = Map_get z0 path"
proof (induction ps arbitrary: z0)
  case Nil
  then show ?case by simp
next
  case (Cons p ps)
  obtain i c where p: "p = (i, c)" by (cases p)
  let ?f = "\<lambda>z (index, chapter).
              zipFile (''OEBPS/chapter'' @ digitsOf (index + 1) @ ''.xhtml'')
                      (TextFile (createChapterXHTML chapter options)) z"
  have "Map_get (foldl ?f z0 (p # ps)) path = Map_get (foldl ?f (?f z0 p) ps) path"
    by simp
  also have "\<dots> = Map_get (?f z0 p) path"
    by (rule Cons.IH)
  also have "\<dots> = Map_get z0 path"
    unfolding p prod.case by (rule Map_get_zipFile_other [OF assms])
  finally show ?case .
qed

lemma Map_get_addChapters:
  "(\<And>i. ''OEBPS/chapter'' @ digitsOf (i + 1) @ ''.xhtml'' \<noteq> path) \<Longrightarrow>
   Map_get (addChapters entries options z) path = Map_get z path"
  unfolding addChapters_def by (rule Map_get_foldl_chapters)

lemma Map_get_addCover:
  "path \<noteq> ''OEBPS/cover.jpg'' \<Longrightarrow>
   Map_get (fst (addCover h book options z)) path = Map_get z path"
  by (auto simp: addCover_def Map_get_zipFile_other split: option.splits sum.splits)

lemma epubArchive_opf:
  "textOf (fst (epubArchive css h book options)) ''OEBPS/content.opf''
     = Some (fst (createContentOPF book options (mathRandom h)))"
  by (simp add: epubArchive_def textOf_def Let_def split_beta Map_get_addCover Map_get_addChapters
        Map_get_zipFile_other Map_get_zipFile_same)

lemma epubArchive_ncx:
  "textOf (fst (epubArchive css h book options)) ''OEBPS/toc.ncx''
     = Some (fst (createTOCNCX book (snd (createContentOPF book options (mathRandom h)))))"
  by (simp add: epubArchive_def textOf_def Let_def split_beta Map_get_addCover Map_get_addChapters
        Map_get_zipFile_other Map_get_zipFile_same)

lemma createContentOPF_rng:
  "snd (createContentOPF book options r) = snd (generateUUID r)"
  by (simp add: createContentOPF_def Let_def split_beta)


lemma takeWhile_stop: "\<not> P c \<Longrightarrow> takeWhile P ((c # cs) @ ys) = []"
  by simp

lemma generateUUID_not_lt [simp]: "x \<in> set (fst (generateUUID r)) \<Longrightarrow> x \<noteq> CHR ''<''"
  using generateUUID_chars by blast

lemma generateUUID_not_quote [simp]: "x \<in> set (fst (generateUUID r)) \<Longrightarrow> x \<noteq> CHR 0x22"
  using generateUUID_chars by blast

lemma opf_identifier_line:
  \<open>fieldsAfter ''<dc:identifier id="bookid">'' CHR ''<'' (''    <dc:identifier id="bookid">'' @ rest)
    = takeWhile (\<lambda>x. x \<noteq> CHR ''<'') rest # fieldsAfter ''<dc:identifier id="bookid">'' CHR ''<'' rest\<close>
  by simp

lemma manifestItem_identifier:
  \<open>fieldsAfter ''<dc:identifier id="bookid">'' CHR ''<'' (manifestItem i @ rest)
     = [] @ fieldsAfter ''<dc:identifier id="bookid">'' CHR ''<'' rest\<close>
  by (simp add: manifestItem_def fieldsAfter_skip)

lemma spineItemref_identifier:
  \<open>fieldsAfter ''<dc:identifier id="bookid">'' CHR ''<'' (spineItemref i @ rest)
     = [] @ fieldsAfter ''<dc:identifier id="bookid">'' CHR ''<'' rest\<close>
  by (simp add: spineItemref_def fieldsAfter_skip)

lemma join_manifest_identifier:
  \<open>fieldsAfter ''<dc:identifier id="bookid">'' CHR ''<'' (join ''\<newline>    '' (map manifestItem ns) @ rest)
     = fieldsAfter ''<dc:identifier id="bookid">'' CHR ''<'' rest\<close>
  using fieldsAfter_join [where f = manifestItem and sep = "''\<newline>    ''", OF manifestItem_identifier fieldsAfter_skip, of ns rest]
  by (simp add: concat_map_none del: fieldsAfter.simps)

lemma join_spine_identifier:
  \<open>fieldsAfter ''<dc:identifier id="bookid">'' CHR ''<'' (join ''\<newline>    '' (map spineItemref ns) @ rest)
     = fieldsAfter ''<dc:identifier id="bookid">'' CHR ''<'' rest\<close>
  using fieldsAfter_join [where f = spineItemref and sep = "''\<newline>    ''", OF spineItemref_identifier fieldsAfter_skip, of ns rest]
  by (simp add: concat_map_none del: fieldsAfter.simps)

lemma opf_identifier:
  "packageIdentifiers (fst (createContentOPF book options r)) = [fst (generateUUID r)]"
  by (simp add: createContentOPF_def Let_def split_beta packageIdentifiers_def fieldsAfter_skip
        fieldsAfter_skip_text opf_identifier_line takeWhile_stop
        join_manifest_identifier join_spine_identifier
        del: upt.simps append_Cons)

lemma ncx_uid_line:
  \<open>fieldsAfter ''<meta name="dtb:uid" content="'' (CHR 0x22) (''    <meta name="dtb:uid" content="'' @ rest)
    = takeWhile (\<lambda>x. x \<noteq> CHR 0x22) rest # fieldsAfter ''<meta name="dtb:uid" content="'' (CHR 0x22) rest\<close>
  by simp

lemma navPoint_uid:
  \<open>fieldsAfter ''<meta name="dtb:uid" content="'' (CHR 0x22) (navPoint p @ rest)
     = [] @ fieldsAfter ''<meta name="dtb:uid" content="'' (CHR 0x22) rest\<close>
  by (cases p) (simp add: navPoint_def fieldsAfter_skip)

lemma join_navPoint_uid:
  \<open>fieldsAfter ''<meta name="dtb:uid" content="'' (CHR 0x22) (join [] (map navPoint ps) @ rest)
     = fieldsAfter ''<meta name="dtb:uid" content="'' (CHR 0x22) rest\<close>
proof -
  have \<open>fieldsAfter ''<meta name="dtb:uid" content="'' (CHR 0x22) (join [] (map navPoint ps) @ rest)
        = concat (map (\<lambda>_. []) ps) @ fieldsAfter ''<meta name="dtb:uid" content="'' (CHR 0x22) rest\<close>
  proof (rule fieldsAfter_join [where g = "\<lambda>_. []"])
    show \<open>fieldsAfter ''<meta name="dtb:uid" content="'' (CHR 0x22) (navPoint n @ rest)
          = [] @ fieldsAfter ''<meta name="dtb:uid" content="'' (CHR 0x22) rest\<close> for n rest
      by (rule navPoint_uid)
    show \<open>fieldsAfter ''<meta name="dtb:uid" content="'' (CHR 0x22) ([] @ rest)
          = fieldsAfter ''<meta name="dtb:uid" content="'' (CHR 0x22) rest\<close> for rest
      by simp
  qed
  then show ?thesis by (simp add: concat_map_none del: fieldsAfter.simps)
qed

lemma ncx_uid:
  "ncxUids (fst (createTOCNCX book r)) = [fst (generateUUID r)]"
  by (simp add: createTOCNCX_def Let_def split_beta ncxUids_def fieldsAfter_skip
        fieldsAfter_skip_text ncx_uid_line takeWhile_stop join_navPoint_uid
        del: append_Cons)


lemma generateUUID_zeros: "fst (generateUUID (\<lambda>i. if i < 31 then 0 else 1)) = ''00000000-0000-4000-8000-000000000000''"
  by (simp add: generateUUID_def nextRandom16_def hexDigit_def Let_def)

lemma generateUUID_rest: "snd (generateUUID r) = (\<lambda>i. r (i + 31))"
  by (simp add: generateUUID_def nextRandom16_def Let_def)
     (rule ext, rule arg_cong [where f = r], arith)

lemma generateUUID_ones: "fst (generateUUID (snd (generateUUID (\<lambda>i. if i < 31 then 0 else 1)))) = ''11111111-1111-4111-9111-111111111111''"
  by (simp add: generateUUID_rest) (simp add: generateUUID_def nextRandom16_def hexDigit_def Let_def)


text \<open>
  The chapter files of the archive follow \<open>Book.content\<close>: \<open>chapterK.xhtml\<close> is the document
  made from the \<open>K\<close>-th entry, so the order of the spine is the order of \<open>Book.content\<close>.
\<close>

lemma digitsOf_value: "foldl (\<lambda>a c. 10 * a + (of_char c - 48)) 0 (digitsOf n) = n"
proof (induction n rule: digitsOf.induct)
  case (1 n)
  show ?case
  proof (cases "n < 10")
    case True
    then show ?thesis by (simp add: digitsOf.simps [of n])
  next
    case False
    have "n mod 10 < 10" by simp
    then have m: "(48 + n mod 10) mod 256 = 48 + n mod 10" by simp
    from False 1 show ?thesis by (simp add: digitsOf.simps [of n] m)
  qed
qed

lemma digitsOf_inj: "digitsOf n = digitsOf m \<Longrightarrow> n = m"
  by (metis digitsOf_value)

lemma chapterPath_inj:
  "''OEBPS/chapter'' @ digitsOf (i + 1) @ ''.xhtml'' = ''OEBPS/chapter'' @ digitsOf (j + 1) @ ''.xhtml''
   \<Longrightarrow> i = j"
  using digitsOf_inj [of "i + 1" "j + 1"] by simp

lemma Map_get_foldl_set:
  "distinct (map fst kvs) \<Longrightarrow> (k, v) \<in> set kvs \<Longrightarrow>
   Map_get (foldl (\<lambda>z (k, v). Map_set k v z) z kvs) k = Some v"
proof (induction kvs arbitrary: z)
  case Nil
  then show ?case by simp
next
  case (Cons p kvs)
  obtain k' v' where p: "p = (k', v')" by (cases p)
  show ?case
  proof (cases "(k, v) \<in> set kvs")
    case True
    with Cons show ?thesis by simp
  next
    case False
    with Cons.prems p have e: "k' = k" "v' = v" by auto
    with Cons.prems p have "k \<notin> set (map fst kvs)" by simp
    then have "Map_get (foldl (\<lambda>z (k, v). Map_set k v z) z' kvs) k = Map_get z' k" for z'
    proof (induction kvs arbitrary: z')
      case Nil
      then show ?case by simp
    next
      case (Cons q kvs)
      obtain a b where q: "q = (a, b)" by (cases q)
      from Cons.prems q have "a \<noteq> k" by auto
      with Cons q show ?case by (simp add: Map_get_Map_set_other)
    qed
    then show ?thesis by (simp add: p e Map_get_Map_set)
  qed
qed

lemma addChapters_files:
  assumes "i < length entries"
  shows "textOf (addChapters entries options z) (''OEBPS/chapter'' @ digitsOf (i + 1) @ ''.xhtml'')
         = Some (createChapterXHTML (entries ! i) options)"
proof -
  let ?path = "\<lambda>i. ''OEBPS/chapter'' @ digitsOf (i + 1) @ ''.xhtml''"
  let ?kv = "\<lambda>(index, chapter). (?path index, TextFile (createChapterXHTML chapter options))"
  have f: "addChapters entries options z
           = foldl (\<lambda>z (k, v). Map_set k v z) z (map ?kv (enumerate 0 entries))"
    by (simp add: addChapters_def zipFile_def foldl_map case_prod_unfold)
  have k: "map fst (map ?kv (enumerate 0 entries)) = map ?path [0..<length entries]"
    by (rule nth_equalityI) (simp_all add: nth_enumerate_eq case_prod_unfold)
  have "inj_on ?path (set [0..<length entries])"
    by (rule inj_onI) (rule chapterPath_inj)
  then have d: "distinct (map fst (map ?kv (enumerate 0 entries)))"
    unfolding k by (simp add: distinct_map)
  from assms have "(i, entries ! i) \<in> set (enumerate 0 entries)"
    by (simp add: in_set_enumerate_eq)
  then have m: "(?path i, TextFile (createChapterXHTML (entries ! i) options))
          \<in> set (map ?kv (enumerate 0 entries))"
    by force
  have g: "Map_get (addChapters entries options z) (?path i)
           = Some (TextFile (createChapterXHTML (entries ! i) options))"
    unfolding f by (rule Map_get_foldl_set [OF d m])
  show ?thesis
    unfolding textOf_def g by simp
qed

lemma epubArchive_chapter_files:
  assumes "i < length (chaptersOf book)"
  shows "textOf (fst (epubArchive stylesheet h book options))
           (''OEBPS/chapter'' @ digitsOf (i + 1) @ ''.xhtml'')
         = Some (createChapterXHTML (chaptersOf book ! i) options)"
proof -
  have "Map_get (fst (epubArchive stylesheet h book options))
           (''OEBPS/chapter'' @ digitsOf (i + 1) @ ''.xhtml'')
        = Map_get (addChapters (chaptersOf book) options
             (zipFile ''OEBPS/toc.xhtml'' (TextFile (createTOCPage book))
             (zipFile ''OEBPS/title.xhtml'' (TextFile (createTitlePage book))
             (zipFile ''OEBPS/stylesheet.css'' (TextFile stylesheet)
             (zipFile ''OEBPS/toc.ncx'' (TextFile (fst (createTOCNCX book (snd (createContentOPF book options (mathRandom h))))))
             (zipFile ''OEBPS/content.opf'' (TextFile (fst (createContentOPF book options (mathRandom h))))
             (zipFolder ''OEBPS''
             (zipFile ''META-INF/container.xml'' (TextFile createContainerXML)
             (zipFolder ''META-INF''
             (zipFile ''mimetype'' (TextFile ''application/epub+zip'') []))))))))))
           (''OEBPS/chapter'' @ digitsOf (i + 1) @ ''.xhtml'')"
    by (simp add: epubArchive_def Let_def split_beta Map_get_addCover)
  then show ?thesis
    using addChapters_files [OF assms] by (simp only: textOf_def)
qed

text \<open>
  Claim C10. In the archive that an EPUB or Kindle export builds, the \<open>dc:identifier\<close> of
  \<open>content.opf\<close> is the identifier generated from the first 31 random draws and the \<open>dtb:uid\<close>
  of \<open>toc.ncx\<close> is the one generated from the next 31 draws; there are draws for which the two
  differ.
\<close>

theorem epubArchive_identifiers:
  "map_option packageIdentifiers
     (textOf (fst (epubArchive stylesheet h book options)) ''OEBPS/content.opf'')
     = Some [fst (generateUUID (mathRandom h))]
   \<and> map_option ncxUids
       (textOf (fst (epubArchive stylesheet h book options)) ''OEBPS/toc.ncx'')
     = Some [fst (generateUUID (\<lambda>i. mathRandom h (i + 31)))]
   \<and> (\<exists>h'. map_option packageIdentifiers
               (textOf (fst (epubArchive stylesheet h' book options)) ''OEBPS/content.opf'')
            \<noteq> map_option ncxUids
               (textOf (fst (epubArchive stylesheet h' book options)) ''OEBPS/toc.ncx''))"
proof -
  have a: "map_option packageIdentifiers
             (textOf (fst (epubArchive stylesheet g book options)) ''OEBPS/content.opf'')
           = Some [fst (generateUUID (mathRandom g))]" for g
    by (simp add: epubArchive_opf opf_identifier)
  have b: "map_option ncxUids
             (textOf (fst (epubArchive stylesheet g book options)) ''OEBPS/toc.ncx'')
           = Some [fst (generateUUID (\<lambda>i. mathRandom g (i + 31)))]" for g
    by (simp add: epubArchive_ncx ncx_uid createContentOPF_rng generateUUID_rest)
  let ?g = "h\<lparr>mathRandom := \<lambda>i. if i < 31 then 0 else 1\<rparr>"
  have e1: "map_option packageIdentifiers
          (textOf (fst (epubArchive stylesheet ?g book options)) ''OEBPS/content.opf'')
        = Some [''00000000-0000-4000-8000-000000000000'']"
    by (simp only: a) (simp add: generateUUID_zeros)
  have e2: "map_option ncxUids
          (textOf (fst (epubArchive stylesheet ?g book options)) ''OEBPS/toc.ncx'')
        = Some [''11111111-1111-4111-9111-111111111111'']"
    using generateUUID_ones by (simp only: b) (simp add: generateUUID_rest)
  have ex: "\<exists>h'. map_option packageIdentifiers
               (textOf (fst (epubArchive stylesheet h' book options)) ''OEBPS/content.opf'')
            \<noteq> map_option ncxUids
               (textOf (fst (epubArchive stylesheet h' book options)) ''OEBPS/toc.ncx'')"
  proof (rule exI)
    show "map_option packageIdentifiers
          (textOf (fst (epubArchive stylesheet ?g book options)) ''OEBPS/content.opf'')
        \<noteq> map_option ncxUids
          (textOf (fst (epubArchive stylesheet ?g book options)) ''OEBPS/toc.ncx'')"
    proof
      assume eq: "map_option packageIdentifiers
            (textOf (fst (epubArchive stylesheet ?g book options)) ''OEBPS/content.opf'')
          = map_option ncxUids
            (textOf (fst (epubArchive stylesheet ?g book options)) ''OEBPS/toc.ncx'')"
      have "Some [''00000000-0000-4000-8000-000000000000'']
            = Some [''11111111-1111-4111-9111-111111111111'']"
        by (rule trans [OF e1 [symmetric] trans [OF eq e2]])
      then show False by simp
    qed
  qed
  show ?thesis by (rule conjI [OF a conjI [OF b ex]])
qed

section \<open>Failure of an export\<close>

lemma nonFetchThrows_append: "nonFetchThrows (a @ b) = nonFetchThrows a @ nonFetchThrows b"
  by (simp add: nonFetchThrows_def)

lemma downloads_append: "downloads (a @ b) = downloads a @ downloads b"
  by (simp add: downloads_def)

lemma nonFetchThrows_Nil: "nonFetchThrows [] = []"
  by (simp add: nonFetchThrows_def)

lemma nonFetchThrows_Cons:
  "nonFetchThrows ((c, out) # tr)
     = (case out of Some t \<Rightarrow> if isFetch c then [] else [t] | None \<Rightarrow> []) @ nonFetchThrows tr"
  by (simp add: nonFetchThrows_def split: option.splits)

lemma downloads_Nil: "downloads [] = []"
  by (simp add: downloads_def)

lemma downloads_Cons:
  "downloads ((c, out) # tr)
     = (case (c, out) of (SaveAs content name, None) \<Rightarrow> [(content, name)] | _ \<Rightarrow> []) @ downloads tr"
  by (simp add: downloads_def)

lemmas trace_simps = nonFetchThrows_Nil nonFetchThrows_Cons nonFetchThrows_append
  downloads_Nil downloads_Cons downloads_append

lemma nonFetchThrows_mem:
  "(c, Some t) \<in> set tr \<Longrightarrow> \<not> isFetch c \<Longrightarrow> t \<in> set (nonFetchThrows tr)"
proof (induction tr)
  case Nil
  then show ?case by simp
next
  case (Cons e tr)
  obtain c' out where e: "e = (c', out)" by (cases e)
  from Cons show ?case by (auto simp: e nonFetchThrows_Cons)
qed

lemma addCover_trace:
  "nonFetchThrows (snd (addCover h book options z)) = [] \<and>
   downloads (snd (addCover h book options z)) = []"
  by (auto simp: addCover_def trace_simps isFetch_def split: option.splits sum.splits)

lemma epubArchive_trace:
  "nonFetchThrows (snd (epubArchive css h book options)) = [] \<and>
   downloads (snd (epubArchive css h book options)) = []"
  by (simp add: epubArchive_def Let_def split_beta addCover_trace)

lemma runOk_saveAs: "runOk (doSaveAs h content name)"
  by (auto simp: runOk_def doSaveAs_def trace_simps isFetch_def split: option.splits)

lemma runOk_epub:
  "runOk (case epubArchive css h book options of
        (jszip, tr) \<Rightarrow>
          andThen (Inr (), tr) (\<lambda>_.
          andThen (doGenerateAsync h jszip) (\<lambda>content. doSaveAs h content name)))"
proof -
  obtain z tr where e: "epubArchive css h book options = (z, tr)" by (cases "epubArchive css h book options")
  from epubArchive_trace [of css h book options] e
  have q: "nonFetchThrows tr = []" "downloads tr = []" by simp_all
  show ?thesis
    by (auto simp: e q runOk_def andThen_def doGenerateAsync_def doSaveAs_def
        trace_simps isFetch_def split: option.splits sum.splits prod.splits)
qed

lemma runOk_pdf: "runOk (exportToPDF rd h book options)"
  by (auto simp: exportToPDF_def Let_def runOk_def andThen_def doWindowOpen_def doDocumentWrite_def
      doDocumentClose_def doSaveAs_def trace_simps isFetch_def
      split: option.splits sum.splits prod.splits)

lemma runOk_printReady: "runOk (exportPrintReady rd h book options)"
  by (auto simp: exportPrintReady_def Let_def runOk_def andThen_def doWindowOpen_def
      doDocumentWrite_def doDocumentClose_def trace_simps isFetch_def
      split: option.splits sum.splits prod.splits)

lemma runOk_docx: "runOk (exportToDocx rd h book options)"
  by (simp add: exportToDocx_def Let_def runOk_saveAs)

lemma runOk_kindle: "runOk (exportToKindle rd h book options)"
  unfolding exportToKindle_def by (rule runOk_epub)

lemma runOk_EPUB: "runOk (exportToEPUB rd h book options)"
  unfolding exportToEPUB_def by (rule runOk_epub)

lemma runOk_failure:
  assumes "runOk (res, tr)" "(c, Some t) \<in> set tr" "\<not> isFetch c"
  shows "res = Inl t \<and> downloads tr = []"
proof -
  from assms(2,3) have m: "t \<in> set (nonFetchThrows tr)" by (rule nonFetchThrows_mem)
  show ?thesis
  proof (cases res)
    case (Inl t')
    with assms(1) have "nonFetchThrows tr = [t']" "downloads tr = []" by (simp_all add: runOk_def)
    with m Inl show ?thesis by simp
  next
    case (Inr a)
    with assms(1) have "nonFetchThrows tr = []" by (simp add: runOk_def)
    with m show ?thesis by simp
  qed
qed

text \<open>
  Claim C3, as the specification states it: whenever a step of the export throws, the export
  is rejected and no file is offered. The fetch of the cover image is a step whose throw is
  caught inside the export: the export then succeeds and offers the archive.
\<close>

theorem exportBook_cover_fetch_counterexample:
  "(Fetch ''cover.png'', Some (JsError ''Failed to fetch''))
     \<in> set (snd (exportBook exampleRenderers
                   (exampleHost\<lparr>fetchBlob := \<lambda>url. Inl (JsError ''Failed to fetch'')\<rparr>)
                   (exampleBook\<lparr>book_coverUrl := Some ''cover.png''\<rparr>)
                   \<lparr>format = Epub, includeImages = True\<rparr>))
   \<and> fst (exportBook exampleRenderers
            (exampleHost\<lparr>fetchBlob := \<lambda>url. Inl (JsError ''Failed to fetch'')\<rparr>)
            (exampleBook\<lparr>book_coverUrl := Some ''cover.png''\<rparr>)
            \<lparr>format = Epub, includeImages = True\<rparr>) = Inr ()
   \<and> map snd (downloads (snd (exportBook exampleRenderers
            (exampleHost\<lparr>fetchBlob := \<lambda>url. Inl (JsError ''Failed to fetch'')\<rparr>)
            (exampleBook\<lparr>book_coverUrl := Some ''cover.png''\<rparr>)
            \<lparr>format = Epub, includeImages = True\<rparr>))) = [''test_title_.epub'']"
proof -
  let ?h = "exampleHost\<lparr>fetchBlob := \<lambda>url. Inl (JsError ''Failed to fetch'')\<rparr>"
  let ?b = "exampleBook\<lparr>book_coverUrl := Some ''cover.png''\<rparr>"
  let ?o = "\<lparr>format = Epub, includeImages = True\<rparr>"
  have n: "sanitizeFilename (book_title exampleBook) = ''test_title_''"
    unfolding exampleBook_def by code_simp
  have t: "snd (epubArchive (createEPUBCSS exampleRenderers ?o) ?h ?b ?o)
           = [(Fetch ''cover.png'', Some (JsError ''Failed to fetch'')), (ConsoleWarn, None)]"
    by (simp add: epubArchive_def Let_def split_beta addCover_def exampleBook_def exampleHost_def)
  obtain z where e: "epubArchive (createEPUBCSS exampleRenderers ?o) ?h ?b ?o
           = (z, [(Fetch ''cover.png'', Some (JsError ''Failed to fetch'')), (ConsoleWarn, None)])"
    using t by (cases "epubArchive (createEPUBCSS exampleRenderers ?o) ?h ?b ?o") simp
  have r: "exportBook exampleRenderers ?h ?b ?o
           = (Inr (), [(Fetch ''cover.png'', Some (JsError ''Failed to fetch'')), (ConsoleWarn, None),
                       (GenerateAsync z, None),
                       (SaveAs (Blob ''PK'' ''application/zip'') (''test_title_'' @ ''.epub''), None)])"
  proof -
    have hs: "saveAs ?h = (\<lambda>content name. None)"
      "generateAsync ?h = (\<lambda>jszip. Inr (Blob ''PK'' ''application/zip''))"
      by (simp_all add: exampleHost_def)
    show ?thesis
      by (simp add: exportBook_def exportToEPUB_def e andThen_def doGenerateAsync_def
            doSaveAs_def n hs)
  qed
  show ?thesis by (simp add: r downloads_def)
qed

text \<open>
  When the fetch of the cover throws, the archive is the one built so far, to which no
  \<open>cover.jpg\<close> was added, and the calls made are the fetch and the warning.
\<close>

lemma epubArchive_fetch_throws:
  assumes "book_coverUrl book = Some coverUrl" "coverUrl \<noteq> []" "includeImages options"
    "fetchBlob h coverUrl = Inl e"
  shows "snd (epubArchive css h book options) = [(Fetch coverUrl, Some e), (ConsoleWarn, None)]"
    and "Map_get (fst (epubArchive css h book options)) ''OEBPS/cover.jpg'' = None"
proof -
  show "snd (epubArchive css h book options) = [(Fetch coverUrl, Some e), (ConsoleWarn, None)]"
    using assms by (simp add: epubArchive_def Let_def split_beta addCover_def)
  have "Map_get ([] :: archive) ''OEBPS/cover.jpg'' = None" by (simp add: Map_get_def)
  with assms show "Map_get (fst (epubArchive css h book options)) ''OEBPS/cover.jpg'' = None"
    by (simp add: epubArchive_def Let_def split_beta addCover_def Map_get_addChapters
          Map_get_zipFile_other Map_get_zipFolder)
qed

text \<open>
  Claim C3, amended. When a call made during the export, other than the fetch of the cover
  image, throws a value, \<open>exportBook\<close> is rejected with the single error \<open>Export failed:\<close>
  followed by the message of that value (the message of an \<open>Error\<close>, or \<open>Unknown error\<close>), and no
  file is offered for download.

  When the fetch of the cover image throws (formats \<open>kindle\<close> and \<open>epub\<close>, for a book with a
  cover URL and with \<open>includeImages\<close> set), the throw is caught and logged and the export goes
  on without the cover: the archive has no \<open>cover.jpg\<close>, it is serialised, and the result is
  offered under the name of the format. The export is then rejected only when the
  serialisation or the saving throws, and it is fulfilled, with the one file offered, when
  they do not.
\<close>

theorem exportBook_failure:
  "((c, Some t) \<in> set (snd (exportBook rd h book options)) \<and> \<not> isFetch c \<longrightarrow>
       fst (exportBook rd h book options) = Inl (JsError (''Export failed: '' @ errorMessage t))
       \<and> downloads (snd (exportBook rd h book options)) = [])
   \<and> ((format options = Kindle \<and> css = createKindleCSS rd options
          \<and> name = sanitizeFilename (book_title book) @ ''_kindle.epub''
        \<or> format options = Epub \<and> css = createEPUBCSS rd options
          \<and> name = sanitizeFilename (book_title book) @ ''.epub'')
       \<and> book_coverUrl book = Some coverUrl \<and> coverUrl \<noteq> [] \<and> includeImages options
       \<and> fetchBlob h coverUrl = Inl e
       \<and> jszip = fst (epubArchive css h book options) \<longrightarrow>
       Map_get jszip ''OEBPS/cover.jpg'' = None
       \<and> exportBook rd h book options =
           (case generateAsync h jszip of
              Inl t' \<Rightarrow>
                (Inl (JsError (''Export failed: '' @ errorMessage t')),
                 [(Fetch coverUrl, Some e), (ConsoleWarn, None), (GenerateAsync jszip, Some t')])
            | Inr content \<Rightarrow>
                (case saveAs h content name of
                   Some t' \<Rightarrow>
                     (Inl (JsError (''Export failed: '' @ errorMessage t')),
                      [(Fetch coverUrl, Some e), (ConsoleWarn, None), (GenerateAsync jszip, None),
                       (SaveAs content name, Some t')])
                 | None \<Rightarrow>
                     (Inr (),
                      [(Fetch coverUrl, Some e), (ConsoleWarn, None), (GenerateAsync jszip, None),
                       (SaveAs content name, None)]))))"
proof (rule conjI)
  define inner where "inner =
     (case format options of
              Kindle \<Rightarrow> exportToKindle rd h book options
            | Epub \<Rightarrow> exportToEPUB rd h book options
            | Pdf \<Rightarrow> exportToPDF rd h book options
            | Docx \<Rightarrow> exportToDocx rd h book options
            | PrintReady \<Rightarrow> exportPrintReady rd h book options
            | OtherFormat f \<Rightarrow> (Inl (JsError (''Unsupported export format: '' @ f)), []))"
  have eb: "exportBook rd h book options =
     (case inner of (Inl error, tr) \<Rightarrow> (Inl (JsError (''Export failed: '' @ errorMessage error)), tr)
       | (Inr done, tr) \<Rightarrow> (Inr done, tr))"
    by (simp add: exportBook_def inner_def)
  have tr: "snd (exportBook rd h book options) = snd inner"
    by (simp add: eb split: prod.splits sum.splits)
  have ok: "runOk inner \<or> snd inner = []"
    by (cases "format options")
       (simp_all add: inner_def runOk_kindle runOk_EPUB runOk_pdf runOk_docx runOk_printReady)
  show "(c, Some t) \<in> set (snd (exportBook rd h book options)) \<and> \<not> isFetch c \<longrightarrow>
       fst (exportBook rd h book options) = Inl (JsError (''Export failed: '' @ errorMessage t))
       \<and> downloads (snd (exportBook rd h book options)) = []"
  proof (intro impI, elim conjE)
    assume a: "(c, Some t) \<in> set (snd (exportBook rd h book options))" and nf: "\<not> isFetch c"
    from a tr have mem: "(c, Some t) \<in> set (snd inner)" by simp
    with ok have "runOk inner" by auto
    then have "runOk (fst inner, snd inner)" by simp
    from runOk_failure [OF this mem nf]
    have "fst inner = Inl t" "downloads (snd inner) = []" by simp_all
    then show "fst (exportBook rd h book options)
                 = Inl (JsError (''Export failed: '' @ errorMessage t))
               \<and> downloads (snd (exportBook rd h book options)) = []"
      by (simp add: eb tr split: prod.splits sum.splits) (auto simp: tr [symmetric] eb)
  qed
next
  let ?run = "case generateAsync h jszip of
              Inl t' \<Rightarrow>
                (Inl (JsError (''Export failed: '' @ errorMessage t')),
                 [(Fetch coverUrl, Some e), (ConsoleWarn, None), (GenerateAsync jszip, Some t')])
            | Inr content \<Rightarrow>
                (case saveAs h content name of
                   Some t' \<Rightarrow>
                     (Inl (JsError (''Export failed: '' @ errorMessage t')),
                      [(Fetch coverUrl, Some e), (ConsoleWarn, None), (GenerateAsync jszip, None),
                       (SaveAs content name, Some t')])
                 | None \<Rightarrow>
                     (Inr (),
                      [(Fetch coverUrl, Some e), (ConsoleWarn, None), (GenerateAsync jszip, None),
                       (SaveAs content name, None)]))"
  show "(format options = Kindle \<and> css = createKindleCSS rd options
          \<and> name = sanitizeFilename (book_title book) @ ''_kindle.epub''
        \<or> format options = Epub \<and> css = createEPUBCSS rd options
          \<and> name = sanitizeFilename (book_title book) @ ''.epub'')
       \<and> book_coverUrl book = Some coverUrl \<and> coverUrl \<noteq> [] \<and> includeImages options
       \<and> fetchBlob h coverUrl = Inl e
       \<and> jszip = fst (epubArchive css h book options) \<longrightarrow>
       Map_get jszip ''OEBPS/cover.jpg'' = None \<and> exportBook rd h book options = ?run"
  proof (intro impI, elim conjE)
    assume fmt: "format options = Kindle \<and> css = createKindleCSS rd options
          \<and> name = sanitizeFilename (book_title book) @ ''_kindle.epub''
        \<or> format options = Epub \<and> css = createEPUBCSS rd options
          \<and> name = sanitizeFilename (book_title book) @ ''.epub''"
      and cu: "book_coverUrl book = Some coverUrl" "coverUrl \<noteq> []" "includeImages options"
        "fetchBlob h coverUrl = Inl e"
      and jz: "jszip = fst (epubArchive css h book options)"
    note ft = epubArchive_fetch_throws [OF cu, of css]
    from ft(2) jz have nc: "Map_get jszip ''OEBPS/cover.jpg'' = None" by simp
    from ft(1) jz have ea: "epubArchive css h book options
                       = (jszip, [(Fetch coverUrl, Some e), (ConsoleWarn, None)])"
      by (cases "epubArchive css h book options") simp
    from fmt have "exportBook rd h book options = ?run"
    proof
      assume k: "format options = Kindle \<and> css = createKindleCSS rd options
          \<and> name = sanitizeFilename (book_title book) @ ''_kindle.epub''"
      with ea show ?thesis
        by (simp add: exportBook_def exportToKindle_def andThen_def doGenerateAsync_def
              doSaveAs_def split: sum.splits option.splits)
    next
      assume k: "format options = Epub \<and> css = createEPUBCSS rd options
          \<and> name = sanitizeFilename (book_title book) @ ''.epub''"
      with ea show ?thesis
        by (simp add: exportBook_def exportToEPUB_def andThen_def doGenerateAsync_def
              doSaveAs_def split: sum.splits option.splits)
    qed
    with nc show "Map_get jszip ''OEBPS/cover.jpg'' = None \<and> exportBook rd h book options = ?run"
      by (rule conjI)
  qed
qed

theorem exportBook_failure_witness:
  "(GenerateAsync
      (fst (epubArchive ''/* Standard EPUB styles */''
              (exampleHost\<lparr>generateAsync := \<lambda>jszip. Inl (JsError ''out of memory'')\<rparr>)
              (exampleBook\<lparr>book_coverUrl := Some ''cover.png''\<rparr>)
              \<lparr>format = Epub, includeImages = True\<rparr>)),
    Some (JsError ''out of memory''))
     \<in> set (snd (exportBook exampleRenderers
                   (exampleHost\<lparr>generateAsync := \<lambda>jszip. Inl (JsError ''out of memory'')\<rparr>)
                   (exampleBook\<lparr>book_coverUrl := Some ''cover.png''\<rparr>)
                   \<lparr>format = Epub, includeImages = True\<rparr>))
   \<and> \<not> isFetch (GenerateAsync
      (fst (epubArchive ''/* Standard EPUB styles */''
              (exampleHost\<lparr>generateAsync := \<lambda>jszip. Inl (JsError ''out of memory'')\<rparr>)
              (exampleBook\<lparr>book_coverUrl := Some ''cover.png''\<rparr>)
              \<lparr>format = Epub, includeImages = True\<rparr>)))
   \<and> (Fetch ''cover.png'', None)
       \<in> set (snd (exportBook exampleRenderers
                   (exampleHost\<lparr>generateAsync := \<lambda>jszip. Inl (JsError ''out of memory'')\<rparr>)
                   (exampleBook\<lparr>book_coverUrl := Some ''cover.png''\<rparr>)
                   \<lparr>format = Epub, includeImages = True\<rparr>))
   \<and> fst (exportBook exampleRenderers
            (exampleHost\<lparr>generateAsync := \<lambda>jszip. Inl (JsError ''out of memory'')\<rparr>)
            (exampleBook\<lparr>book_coverUrl := Some ''cover.png''\<rparr>)
            \<lparr>format = Epub, includeImages = True\<rparr>)
       = Inl (JsError ''Export failed: out of memory'')
   \<and> downloads (snd (exportBook exampleRenderers
            (exampleHost\<lparr>generateAsync := \<lambda>jszip. Inl (JsError ''out of memory'')\<rparr>)
            (exampleBook\<lparr>book_coverUrl := Some ''cover.png''\<rparr>)
            \<lparr>format = Epub, includeImages = True\<rparr>)) = []
   \<and> fetchBlob (exampleHost\<lparr>fetchBlob := \<lambda>url. Inl (JsError ''Failed to fetch'')\<rparr>) ''cover.png''
       = Inl (JsError ''Failed to fetch'')
   \<and> Map_get (fst (epubArchive ''/* Kindle-optimized styles */''
                     (exampleHost\<lparr>fetchBlob := \<lambda>url. Inl (JsError ''Failed to fetch'')\<rparr>)
                     (exampleBook\<lparr>book_coverUrl := Some ''cover.png''\<rparr>)
                     \<lparr>format = Kindle, includeImages = True\<rparr>)) ''OEBPS/cover.jpg'' = None
   \<and> exportBook exampleRenderers
        (exampleHost\<lparr>fetchBlob := \<lambda>url. Inl (JsError ''Failed to fetch'')\<rparr>)
        (exampleBook\<lparr>book_coverUrl := Some ''cover.png''\<rparr>)
        \<lparr>format = Kindle, includeImages = True\<rparr>
       = (Inr (),
          [(Fetch ''cover.png'', Some (JsError ''Failed to fetch'')), (ConsoleWarn, None),
           (GenerateAsync
              (fst (epubArchive ''/* Kindle-optimized styles */''
                     (exampleHost\<lparr>fetchBlob := \<lambda>url. Inl (JsError ''Failed to fetch'')\<rparr>)
                     (exampleBook\<lparr>book_coverUrl := Some ''cover.png''\<rparr>)
                     \<lparr>format = Kindle, includeImages = True\<rparr>)), None),
           (SaveAs (Blob ''PK'' ''application/zip'') ''test_title__kindle.epub'', None)])"
proof -
  let ?b = "exampleBook\<lparr>book_coverUrl := Some ''cover.png''\<rparr>"
  have n: "sanitizeFilename (book_title exampleBook) = ''test_title_''"
    unfolding exampleBook_def by code_simp
  have cu: "book_coverUrl ?b = Some ''cover.png''" by simp
  \<comment> \<open>the serialisation throws, after the cover was fetched\<close>
  let ?hA = "exampleHost\<lparr>generateAsync := \<lambda>jszip. Inl (JsError ''out of memory'')\<rparr>"
  let ?oA = "\<lparr>format = Epub, includeImages = True\<rparr>"
  let ?zA = "fst (epubArchive ''/* Standard EPUB styles */'' ?hA ?b ?oA)"
  have cssA: "createEPUBCSS exampleRenderers ?oA = ''/* Standard EPUB styles */''"
    by (simp add: exampleRenderers_def)
  have tA: "snd (epubArchive ''/* Standard EPUB styles */'' ?hA ?b ?oA) = [(Fetch ''cover.png'', None)]"
    by (simp add: epubArchive_def Let_def split_beta addCover_def exampleHost_def)
  obtain z where zA: "?zA = z" by simp
  from tA zA have eA: "epubArchive ''/* Standard EPUB styles */'' ?hA ?b ?oA
                       = (z, [(Fetch ''cover.png'', None)])"
    by (cases "epubArchive ''/* Standard EPUB styles */'' ?hA ?b ?oA") simp
  have gA: "generateAsync ?hA = (\<lambda>jszip. Inl (JsError ''out of memory''))" by simp
  have rA: "snd (exportBook exampleRenderers ?hA ?b ?oA)
            = [(Fetch ''cover.png'', None), (GenerateAsync z, Some (JsError ''out of memory''))]"
    by (simp add: exportBook_def exportToEPUB_def cssA eA andThen_def doGenerateAsync_def gA)
  have mA: "(GenerateAsync z, Some (JsError ''out of memory''))
              \<in> set (snd (exportBook exampleRenderers ?hA ?b ?oA))"
    by (simp add: rA)
  have fA: "\<not> isFetch (GenerateAsync z)" by (simp add: isFetch_def)
  have pA: "(Fetch ''cover.png'', None) \<in> set (snd (exportBook exampleRenderers ?hA ?b ?oA))"
    by (simp add: rA)
  from exportBook_failure [where c = "GenerateAsync z" and t = "JsError ''out of memory''"
      and rd = exampleRenderers and h = ?hA and book = ?b and options = ?oA] mA fA
  have cA: "fst (exportBook exampleRenderers ?hA ?b ?oA)
              = Inl (JsError (''Export failed: '' @ errorMessage (JsError ''out of memory'')))"
    "downloads (snd (exportBook exampleRenderers ?hA ?b ?oA)) = []"
    by simp_all
  from cA(1) have cA1: "fst (exportBook exampleRenderers ?hA ?b ?oA)
              = Inl (JsError ''Export failed: out of memory'')"
    by (simp add: errorMessage_def)
  \<comment> \<open>the fetch of the cover throws\<close>
  let ?hB = "exampleHost\<lparr>fetchBlob := \<lambda>url. Inl (JsError ''Failed to fetch'')\<rparr>"
  let ?oB = "\<lparr>format = Kindle, includeImages = True\<rparr>"
  let ?zB = "fst (epubArchive ''/* Kindle-optimized styles */'' ?hB ?b ?oB)"
  have cssB: "''/* Kindle-optimized styles */'' = createKindleCSS exampleRenderers ?oB"
    by (simp add: exampleRenderers_def)
  have nB: "''test_title__kindle.epub'' = sanitizeFilename (book_title ?b) @ ''_kindle.epub''"
    by (simp add: n)
  have fB: "fetchBlob ?hB ''cover.png'' = Inl (JsError ''Failed to fetch'')" by simp
  have hB: "generateAsync exampleHost = (\<lambda>jszip. Inr (Blob ''PK'' ''application/zip''))"
    "saveAs exampleHost = (\<lambda>content name. None)"
    by (simp_all add: exampleHost_def)
  from exportBook_failure [where rd = exampleRenderers and h = ?hB and book = ?b and options = ?oB
      and css = "''/* Kindle-optimized styles */''" and name = "''test_title__kindle.epub''"
      and coverUrl = "''cover.png''" and e = "JsError ''Failed to fetch''" and jszip = ?zB]
    cssB nB cu fB
  have cB: "Map_get ?zB ''OEBPS/cover.jpg'' = None
      \<and> exportBook exampleRenderers ?hB ?b ?oB =
           (case generateAsync ?hB ?zB of
              Inl t' \<Rightarrow>
                (Inl (JsError (''Export failed: '' @ errorMessage t')),
                 [(Fetch ''cover.png'', Some (JsError ''Failed to fetch'')), (ConsoleWarn, None),
                  (GenerateAsync ?zB, Some t')])
            | Inr content \<Rightarrow>
                (case saveAs ?hB content ''test_title__kindle.epub'' of
                   Some t' \<Rightarrow>
                     (Inl (JsError (''Export failed: '' @ errorMessage t')),
                      [(Fetch ''cover.png'', Some (JsError ''Failed to fetch'')), (ConsoleWarn, None),
                       (GenerateAsync ?zB, None),
                       (SaveAs content ''test_title__kindle.epub'', Some t')])
                 | None \<Rightarrow>
                     (Inr (),
                      [(Fetch ''cover.png'', Some (JsError ''Failed to fetch'')), (ConsoleWarn, None),
                       (GenerateAsync ?zB, None),
                       (SaveAs content ''test_title__kindle.epub'', None)])))"
    by simp
  from cB have cB1: "Map_get ?zB ''OEBPS/cover.jpg'' = None" by (rule conjunct1)
  from cB have cB2: "exportBook exampleRenderers ?hB ?b ?oB
       = (Inr (),
          [(Fetch ''cover.png'', Some (JsError ''Failed to fetch'')), (ConsoleWarn, None),
           (GenerateAsync ?zB, None),
           (SaveAs (Blob ''PK'' ''application/zip'') ''test_title__kindle.epub'', None)])"
    by (simp add: hB)
  show ?thesis
    unfolding zA
    by (rule conjI [OF mA conjI [OF fA conjI [OF pA conjI [OF cA1 conjI [OF cA(2)
          conjI [OF fB conjI [OF cB1 cB2]]]]]]])
qed

lemma exportBook_unsupported_format:
  "exportBook rd h book (options\<lparr>format := OtherFormat f\<rparr>)
     = (Inl (JsError (''Export failed: Unsupported export format: '' @ f)), [])"
  by (simp add: exportBook_def errorMessage_def)

section \<open>A blocked print window\<close>

text \<open>
  Claim C4. With the print window blocked, \<open>print-ready\<close> resolves having done nothing but the
  call of \<open>window.open\<close>: no file is offered. The \<open>pdf\<close> format, in the same situation, offers
  its HTML document as \<open>..._print.html\<close>.
\<close>

theorem exportPrintReady_blocked_no_fallback:
  "exportBook rd (h\<lparr>windowOpen := Inr False\<rparr>) book (options\<lparr>format := PrintReady\<rparr>)
     = (Inr (), [(WindowOpen, None)])
   \<and> downloads (snd (exportBook rd (h\<lparr>windowOpen := Inr False\<rparr>) book
                        (options\<lparr>format := PrintReady\<rparr>))) = []
   \<and> exportBook rd (h\<lparr>windowOpen := Inr False, saveAs := \<lambda>content name. None\<rparr>) book
        (options\<lparr>format := Pdf\<rparr>)
     = (Inr (), [(WindowOpen, None),
                 (SaveAs (Blob (createPDFHTML rd book (options\<lparr>format := Pdf\<rparr>)) ''text/html'')
                         (sanitizeFilename (book_title book) @ ''_print.html''), None)])"
  by (simp add: exportBook_def exportPrintReady_def exportToPDF_def andThen_def doWindowOpen_def
        doSaveAs_def downloads_def Let_def)

end
